theory Spec2Isabelle
  imports Complex_Main
begin

section \<open>JavaScript values and strings\<close>

text \<open>
  A string of the program is modelled by its UTF-8 encoding, one \<open>char\<close> for each byte:
  an ASCII character is one \<open>char\<close>, and any other character is a sequence of two to
  four of them, each of value 0x80 or more (U+00A0 is \<open>CHR 0xC2\<close>, \<open>CHR 0xA0\<close>). A list
  of bytes that is not UTF-8 is not a string of the program. The operations of the
  sources that look inside a string are \<^verbatim>\<open>trim\<close>, \<^verbatim>\<open>split(' ')\<close>,
  \<^verbatim>\<open>replace(/\D/g, '')\<close>, \<^verbatim>\<open>parseInt\<close> and the case conversions;
  \<^verbatim>\<open>toLowerCase\<close> and \<^verbatim>\<open>toUpperCase\<close> are modelled on the letters A..Z and a..z and
  leave every other character as it is. A value that may be \<^verbatim>\<open>undefined\<close> is a
  \<open>string option\<close>.
\<close>

datatype json =
    JUndefined
  | JNull
  | JBool bool
  | JNum int
  | JStr string
  | JArr "json list"
  | JObj "(string \<times> json) list"
  | JUncomputed

fun field :: "string \<Rightarrow> json \<Rightarrow> json" where
  "field k (JObj kvs) = (case map_of kvs k of Some v \<Rightarrow> v | None \<Rightarrow> JUndefined)"
| "field k _ = JUndefined"

definition jopt :: "string option \<Rightarrow> json" where
  "jopt v = (case v of None \<Rightarrow> JUndefined | Some s \<Rightarrow> JStr s)"

text \<open>Interpolation in a template literal: \<^verbatim>\<open>`${v}`\<close>.\<close>

definition toStr :: "string option \<Rightarrow> string" where
  "toStr v = (case v of None \<Rightarrow> ''undefined'' | Some s \<Rightarrow> s)"

text \<open>Truthiness of a string that may be undefined, and \<^verbatim>\<open>a || b\<close> on strings.\<close>

definition truthy :: "string option \<Rightarrow> bool" where
  "truthy v = (case v of None \<Rightarrow> False | Some s \<Rightarrow> s \<noteq> [])"

definition orStr :: "string \<Rightarrow> string \<Rightarrow> string" where
  "orStr a b = (if a = [] then b else a)"

definition orOpt :: "string option \<Rightarrow> string \<Rightarrow> string" where
  "orOpt a b = (case a of None \<Rightarrow> b | Some s \<Rightarrow> orStr s b)"

text \<open>
  The white space of ECMAScript (\<^verbatim>\<open>WhiteSpace\<close> and \<^verbatim>\<open>LineTerminator\<close>), which
  \<^verbatim>\<open>String.prototype.trim\<close> strips and \<^verbatim>\<open>parseInt\<close> skips: U+0009 to U+000D, U+0020,
  U+00A0, U+1680, U+2000 to U+200A, U+2028, U+2029, U+202F, U+205F, U+3000 and U+FEFF,
  each as its bytes.
\<close>

definition whiteSpaces :: "string list" where
  "whiteSpaces =
     [CHR 0x09] # [CHR 0x0A] # [CHR 0x0B] # [CHR 0x0C] # [CHR 0x0D] # [CHR 0x20]
     # [CHR 0xC2, CHR 0xA0]
     # [CHR 0xE1, CHR 0x9A, CHR 0x80]
     # [CHR 0xE2, CHR 0x80, CHR 0x80] # [CHR 0xE2, CHR 0x80, CHR 0x81]
     # [CHR 0xE2, CHR 0x80, CHR 0x82] # [CHR 0xE2, CHR 0x80, CHR 0x83]
     # [CHR 0xE2, CHR 0x80, CHR 0x84] # [CHR 0xE2, CHR 0x80, CHR 0x85]
     # [CHR 0xE2, CHR 0x80, CHR 0x86] # [CHR 0xE2, CHR 0x80, CHR 0x87]
     # [CHR 0xE2, CHR 0x80, CHR 0x88] # [CHR 0xE2, CHR 0x80, CHR 0x89]
     # [CHR 0xE2, CHR 0x80, CHR 0x8A]
     # [CHR 0xE2, CHR 0x80, CHR 0xA8] # [CHR 0xE2, CHR 0x80, CHR 0xA9]
     # [CHR 0xE2, CHR 0x80, CHR 0xAF]
     # [CHR 0xE2, CHR 0x81, CHR 0x9F]
     # [CHR 0xE3, CHR 0x80, CHR 0x80]
     # [CHR 0xEF, CHR 0xBB, CHR 0xBF] # []"

definition startsWith :: "string \<Rightarrow> string \<Rightarrow> bool" where
  "startsWith p s = (take (length p) s = p)"

text \<open>Removing from the front of a string every leading occurrence of the given sequences.\<close>

fun stripStart :: "string list \<Rightarrow> string \<Rightarrow> string" where
  "stripStart ps [] = []"
| "stripStart ps (c # cs) =
     (case find (\<lambda>p. startsWith p (c # cs)) ps of
        None \<Rightarrow> c # cs
      | Some p \<Rightarrow> stripStart ps (drop (length p - 1) cs))"

definition trimStart :: "string \<Rightarrow> string" where
  "trimStart s = stripStart whiteSpaces s"

definition trimEnd :: "string \<Rightarrow> string" where
  "trimEnd s = rev (stripStart (map rev whiteSpaces) (rev s))"

definition trim :: "string \<Rightarrow> string" where
  "trim s = trimEnd (trimStart s)"

definition isDigit :: "char \<Rightarrow> bool" where
  "isDigit c = (48 \<le> (of_char c :: nat) \<and> (of_char c :: nat) \<le> 57)"

text \<open>\<^verbatim>\<open>String(phone).replace(/\D/g, '')\<close>\<close>

definition digitsOnly :: "string \<Rightarrow> string" where
  "digitsOnly s = filter isDigit s"

definition lowerChar :: "char \<Rightarrow> char" where
  "lowerChar c = (let n = (of_char c :: nat) in
                  if 65 \<le> n \<and> n \<le> 90 then char_of (n + 32) else c)"

definition upperChar :: "char \<Rightarrow> char" where
  "upperChar c = (let n = (of_char c :: nat) in
                  if 97 \<le> n \<and> n \<le> 122 then char_of (n - 32) else c)"

definition toLowerCase :: "string \<Rightarrow> string" where
  "toLowerCase s = map lowerChar s"

definition toUpperCase :: "string \<Rightarrow> string" where
  "toUpperCase s = map upperChar s"

text \<open>\<^verbatim>\<open>s.split(c)\<close> for a one-character separator: never the empty list.\<close>

fun splitOn :: "char \<Rightarrow> string \<Rightarrow> string list" where
  "splitOn c [] = [] # []"
| "splitOn c (x # xs) =
     (if x = c then [] # splitOn c xs
      else (case splitOn c xs of [] \<Rightarrow> [x] # [] | p # ps \<Rightarrow> (x # p) # ps))"

text \<open>\<^verbatim>\<open>parts.join(sep)\<close>\<close>

fun joinWith :: "string \<Rightarrow> string list \<Rightarrow> string" where
  "joinWith sep [] = []"
| "joinWith sep [p] = p"
| "joinWith sep (p # q # ps) = p @ sep @ joinWith sep (q # ps)"

text \<open>
  A number of the program is a double. The numbers of the handlers are integers, the
  infinities and NaN: \<open>Fin n\<close> is the double of the integer value \<open>n\<close> (0 and -0 are
  both \<open>Fin 0\<close>: the handlers do not tell them apart). \<open>Other\<close> is a number that the
  model does not compute, which only \<open>ceilNum\<close> below gives. \<^verbatim>\<open>JSON.stringify\<close> writes
  NaN and the infinities as \<^verbatim>\<open>null\<close>; what it writes for a number that is not
  computed is \<open>JUncomputed\<close>.
\<close>

datatype jsnum = NaN | Fin int | PosInf | NegInf | Other

definition jnum :: "jsnum \<Rightarrow> json" where
  "jnum a = (case a of Fin n \<Rightarrow> JNum n | Other \<Rightarrow> JUncomputed | _ \<Rightarrow> JNull)"

text \<open>
  The double nearest to an integer, ties going to the even significand: an integer of
  magnitude below \<open>2 ^ 53\<close> is a double; a larger one keeps its 53 leading bits,
  rounded; from \<open>2 ^ 1024\<close> on the result is an infinity.
\<close>

fun bitlen :: "nat \<Rightarrow> nat" where
  "bitlen n = (if n = 0 then 0 else Suc (bitlen (n div 2)))"

declare bitlen.simps [simp del]

definition toDouble :: "int \<Rightarrow> jsnum" where
  "toDouble n =
     (let a = nat \<bar>n\<bar> in
      if a < 2 ^ 53 then Fin n
      else let e = bitlen a - 53;
               q = a div 2 ^ e;
               r = a mod 2 ^ e;
               q' = (if 2 ^ e < 2 * r \<or> (2 * r = 2 ^ e \<and> odd q) then q + 1 else q)
           in if 2 ^ 1024 \<le> q' * 2 ^ e then (if n < 0 then NegInf else PosInf)
              else Fin (sgn n * int (q' * 2 ^ e)))"

text \<open>
  \<^verbatim>\<open>parseInt(s)\<close> with no radix: leading white space is skipped, a sign is read, a
  \<^verbatim>\<open>0x\<close> prefix selects radix 16, and the longest run of digits is the value, as a
  double; no digit gives NaN.
\<close>

definition digitVal :: "char \<Rightarrow> nat" where
  "digitVal c = (let n = (of_char c :: nat) in
                 if 48 \<le> n \<and> n \<le> 57 then n - 48
                 else if 97 \<le> n \<and> n \<le> 122 then n - 87
                 else if 65 \<le> n \<and> n \<le> 90 then n - 55
                 else 36)"

definition isRadixDigit :: "nat \<Rightarrow> char \<Rightarrow> bool" where
  "isRadixDigit r c = (digitVal c < r)"

definition hasHexPrefix :: "string \<Rightarrow> bool" where
  "hasHexPrefix s = (take 2 s = ''0x'' \<or> take 2 s = ''0X'')"

definition parseInt :: "string \<Rightarrow> jsnum" where
  "parseInt s =
     (let s1 = trimStart s;
          neg = (take 1 s1 = ''-'');
          s2 = (if take 1 s1 = ''-'' \<or> take 1 s1 = ''+'' then drop 1 s1 else s1);
          radix = (if hasHexPrefix s2 then 16 else 10);
          s3 = (if hasHexPrefix s2 then drop 2 s2 else s2);
          ds = takeWhile (isRadixDigit radix) s3;
          n = int (foldl (\<lambda>a c. a * radix + digitVal c) 0 ds)
      in if ds = [] then NaN else toDouble (if neg then - n else n))"

text \<open>\<^verbatim>\<open>a || d\<close> on numbers: NaN and 0 are falsy.\<close>

definition orNum :: "jsnum \<Rightarrow> int \<Rightarrow> jsnum" where
  "orNum a d = (case a of NaN \<Rightarrow> Fin d | Fin n \<Rightarrow> if n = 0 then Fin d else Fin n
                | _ \<Rightarrow> a)"

text \<open>\<^verbatim>\<open>parseInt(v) || d\<close>\<close>

definition parseIntOr :: "string option \<Rightarrow> int \<Rightarrow> jsnum" where
  "parseIntOr v d = orNum (parseInt (toStr v)) d"

text \<open>
  \<^verbatim>\<open>a - 1\<close> and \<^verbatim>\<open>a * b\<close>: the exact result, rounded. The product of 0 and an
  infinity is NaN.
\<close>

definition minusOne :: "jsnum \<Rightarrow> jsnum" where
  "minusOne a = (case a of Fin n \<Rightarrow> toDouble (n - 1) | _ \<Rightarrow> a)"

definition negative :: "jsnum \<Rightarrow> bool" where
  "negative a = (case a of Fin n \<Rightarrow> n < 0 | NegInf \<Rightarrow> True | _ \<Rightarrow> False)"

definition times :: "jsnum \<Rightarrow> jsnum \<Rightarrow> jsnum" where
  "times a b =
     (case (a, b) of
        (Fin x, Fin y) \<Rightarrow> toDouble (x * y)
      | (NaN, _) \<Rightarrow> NaN
      | (_, NaN) \<Rightarrow> NaN
      | (Other, _) \<Rightarrow> Other
      | (_, Other) \<Rightarrow> Other
      | _ \<Rightarrow> if a = Fin 0 \<or> b = Fin 0 then NaN
             else if negative a = negative b then PosInf else NegInf)"

text \<open>
  \<^verbatim>\<open>Math.ceil(a / b)\<close>. For an integer \<open>a\<close> of magnitude below \<open>2 ^ 53\<close> and an
  integer \<open>b\<close> that is not 0, the quotient is rounded to a double by less than its
  distance to the next integer, so that the result is the ceiling of the exact quotient;
  a finite number divided by an infinity is 0. The other cases are not computed.
\<close>

definition ceilDiv :: "int \<Rightarrow> int \<Rightarrow> int" where
  "ceilDiv a b = - ((- a) div b)"

definition ceilNum :: "jsnum \<Rightarrow> jsnum \<Rightarrow> jsnum" where
  "ceilNum a b =
     (case (a, b) of
        (Fin t, Fin l) \<Rightarrow> if l \<noteq> 0 \<and> \<bar>t\<bar> < 2 ^ 53 then Fin (ceilDiv t l) else Other
      | (NaN, _) \<Rightarrow> NaN
      | (_, NaN) \<Rightarrow> NaN
      | (Fin t, PosInf) \<Rightarrow> Fin 0
      | (Fin t, NegInf) \<Rightarrow> Fin 0
      | _ \<Rightarrow> Other)"

text \<open>\<^verbatim>\<open>a < b\<close>, where it is computed.\<close>

definition ltNum :: "jsnum \<Rightarrow> jsnum \<Rightarrow> bool option" where
  "ltNum a b =
     (case (a, b) of
        (Fin x, Fin y) \<Rightarrow> Some (x < y)
      | (NaN, _) \<Rightarrow> Some False
      | (_, NaN) \<Rightarrow> Some False
      | (Other, _) \<Rightarrow> None
      | (_, Other) \<Rightarrow> None
      | (_, PosInf) \<Rightarrow> Some (a \<noteq> PosInf)
      | (NegInf, _) \<Rightarrow> Some (b \<noteq> NegInf)
      | _ \<Rightarrow> Some False)"

definition jboolOpt :: "bool option \<Rightarrow> json" where
  "jboolOpt b = (case b of None \<Rightarrow> JUncomputed | Some v \<Rightarrow> JBool v)"

section \<open>Exceptions and effects\<close>

text \<open>
  An \<^verbatim>\<open>async\<close> function is a state transformer on the world that either returns a
  value or throws. \<^verbatim>\<open>await\<close> is sequencing.
\<close>

datatype exn = Error (message: string)

type_synonym ('w, 'a) io = "'w \<Rightarrow> (exn + 'a) \<times> 'w"

definition ret :: "'a \<Rightarrow> ('w, 'a) io" where
  "ret x w = (Inr x, w)"

definition throw :: "exn \<Rightarrow> ('w, 'a) io" where
  "throw e w = (Inl e, w)"

definition andThen :: "('w, 'a) io \<Rightarrow> ('a \<Rightarrow> ('w, 'b) io) \<Rightarrow> ('w, 'b) io" where
  "andThen m f w = (case m w of (Inl e, w') \<Rightarrow> (Inl e, w') | (Inr x, w') \<Rightarrow> f x w')"

definition tryCatch :: "('w, 'a) io \<Rightarrow> (exn \<Rightarrow> ('w, 'a) io) \<Rightarrow> ('w, 'a) io" where
  "tryCatch m h w = (case m w of (Inl e, w') \<Rightarrow> h e w' | (Inr x, w') \<Rightarrow> (Inr x, w'))"

section \<open>Documents, environment and world\<close>

text \<open>
  A document of the \<^verbatim>\<open>User\<close> collection. \<open>uid\<close> is \<^verbatim>\<open>_id\<close>; a missing
  \<^verbatim>\<open>phone\<close> or \<^verbatim>\<open>status\<close> is the empty string, which the handlers treat the
  same way (\<^verbatim>\<open>a.phone || ''\<close>); \<^verbatim>\<open>isActive\<close> may be undefined. Times are
  numbers.
\<close>

record user =
  uid :: string
  name :: string
  email :: string
  password :: string
  role :: string
  phone :: string
  categoryIds :: "string list"
  status :: string
  isActive :: "bool option"
  isDeleted :: bool
  deletedAt :: "nat option"
  createdAt :: nat

record category =
  cid :: string
  cname :: string

record notification =
  n_title :: string
  n_message :: string
  n_type :: string
  n_category :: string
  n_userId :: "string option"
  n_metadata :: json

record activity =
  a_userId :: "string option"
  a_message :: string
  a_status :: string

record push =
  p_title :: string
  p_body :: string
  p_data :: json
  p_userIds :: "string list"

text \<open>
  The HTML of an email is a template literal of the source with values interpolated; the
  model keeps which literal it is and the interpolated values, in the order they appear.
\<close>

datatype template =
    AgentWelcome
  | TicketReopened
  | TicketPending
  | TicketInProgress
  | TicketResolved
  | TicketClosed
  | TicketStatusUpdated

datatype html = Html (templateOf: template) (interpolated: "string list")

record mail =
  m_sender :: "string \<times> string option"
  m_to :: "string list"
  m_subject :: string
  m_htmlContent :: html
  m_textContent :: "string option"
  m_replyTo :: "string option"

record response =
  statusCode :: nat
  payload :: json

datatype dbop =
    FindOne | FindById | Create | Save | CountDocuments | Find
  | CategoryFind | NotificationCreate

text \<open>
  What the handlers do not decide: whether a call to the database, the activity logger,
  the push service or the mail provider rejects (with the message of the error), the
  process environment, the clock, the identifier the database gives a new document, the
  defaults of the schema, the password hash, the regular-expression engine of the
  database (\<open>regexI env p\<close> is the case-insensitive matcher of pattern \<open>p\<close>, or
  \<open>None\<close> when \<open>p\<close> is no regular expression), what the database does with a skip
  or a limit of magnitude \<open>2 ^ 53\<close> or more, infinite or NaN (\<open>uncomputedPaging env\<close> is
  the message of its error, or the numbers of documents it skips and returns, 0 for no
  limit) and the locale formatting of dates.
\<close>

record env =
  dbFault :: "dbop \<Rightarrow> string option"
  logActivityFault :: "string option"
  pushFault :: "string option"
  BREVO_API_KEY :: "string option"
  BREVO_API_EMEAIL :: "string option"
  APP_URL :: "string option"
  brevoFault :: "string option"
  brevoResult :: string
  newObjectId :: string
  now :: nat
  schemaDefaults :: user
  hashPassword :: "string \<Rightarrow> string"
  regexI :: "string \<Rightarrow> (string \<Rightarrow> bool) option"
  uncomputedPaging :: "string + nat \<times> nat"
  toLocaleDateString :: "nat \<Rightarrow> string"
  toLocaleTimeString :: "nat \<Rightarrow> string"
  toLocaleStringPST :: "nat \<Rightarrow> string"

record world =
  users :: "user list"
  categories :: "category list"
  notifications :: "notification list"
  activityLog :: "activity list"
  pushes :: "push list"
  outbox :: "mail list"
  sent :: "response list"

record reqBody =
  firstName :: "string option"
  lastName :: "string option"
  email_in :: string
  phone_in :: "string option"
  password_in :: "string option"
  categoryId :: "string list option"

record reqQuery =
  page_q :: "string option"
  limit_q :: "string option"
  search_q :: "string option"

record request =
  params_id :: string
  body :: reqBody
  query :: reqQuery
  user_id :: "string option"

section \<open>The database\<close>

text \<open>A filter object: the conjunction of its conditions.\<close>

datatype fieldName = F_name | F_email | F_phone

datatype cond =
    Id_eq string
  | Role_eq string
  | Email_eq string
  | Phone_eq string
  | IsDeleted_eq bool
  | Or_regex "(fieldName \<times> string) list"

fun getField :: "fieldName \<Rightarrow> user \<Rightarrow> string" where
  "getField F_name u = name u"
| "getField F_email u = email u"
| "getField F_phone u = phone u"

definition regexMatches :: "env \<Rightarrow> user \<Rightarrow> fieldName \<times> string \<Rightarrow> bool" where
  "regexMatches env u fp =
     (case regexI env (snd fp) of None \<Rightarrow> False | Some m \<Rightarrow> m (getField (fst fp) u))"

fun condValid :: "env \<Rightarrow> cond \<Rightarrow> bool" where
  "condValid env (Or_regex rs) = list_all (\<lambda>fp. regexI env (snd fp) \<noteq> None) rs"
| "condValid env _ = True"

fun condHolds :: "env \<Rightarrow> cond \<Rightarrow> user \<Rightarrow> bool" where
  "condHolds env (Id_eq i) u = (uid u = i)"
| "condHolds env (Role_eq r) u = (role u = r)"
| "condHolds env (Email_eq e) u = (email u = e)"
| "condHolds env (Phone_eq p) u = (phone u = p)"
| "condHolds env (IsDeleted_eq b) u = (isDeleted u = b)"
| "condHolds env (Or_regex rs) u = list_ex (regexMatches env u) rs"

definition matches :: "env \<Rightarrow> cond list \<Rightarrow> user \<Rightarrow> bool" where
  "matches env q u = list_all (\<lambda>c. condHolds env c u) q"

text \<open>A database call rejects when the environment says so.\<close>

definition dbCall :: "env \<Rightarrow> dbop \<Rightarrow> (world, 'a) io \<Rightarrow> (world, 'a) io" where
  "dbCall env op m = (case dbFault env op of Some msg \<Rightarrow> throw (Error msg) | None \<Rightarrow> m)"

text \<open>A query with a pattern that is no regular expression is rejected by the database.\<close>

definition withQuery :: "env \<Rightarrow> cond list \<Rightarrow> (world, 'a) io \<Rightarrow> (world, 'a) io" where
  "withQuery env q m =
     (if list_all (condValid env) q then m
      else throw (Error ''Regular expression is invalid''))"

text \<open>The first document with a property, and its position in the collection.\<close>

fun findFirst :: "('a \<Rightarrow> bool) \<Rightarrow> 'a list \<Rightarrow> (nat \<times> 'a) option" where
  "findFirst P [] = None"
| "findFirst P (x # xs) =
     (if P x then Some (0, x)
      else (case findFirst P xs of None \<Rightarrow> None | Some (i, y) \<Rightarrow> Some (Suc i, y)))"

definition User_findOne :: "env \<Rightarrow> cond list \<Rightarrow> (world, (nat \<times> user) option) io" where
  "User_findOne env q =
     dbCall env FindOne (withQuery env q (\<lambda>w. (Inr (findFirst (matches env q) (users w)), w)))"

definition User_findById :: "env \<Rightarrow> string \<Rightarrow> (world, (nat \<times> user) option) io" where
  "User_findById env i =
     dbCall env FindById (\<lambda>w. (Inr (findFirst (\<lambda>u. uid u = i) (users w)), w))"

text \<open>
  Modelled from the spec: the pre-save hook of \<^verbatim>\<open>models/User.js\<close>, which is not among
  the sources. The controller says what it does (\<^verbatim>\<open>password will be hashed by pre-save
  hook\<close>, \<^verbatim>\<open>Model hook will add +1 automatically if 10 digits\<close>); it is applied to the
  paths that were modified.
\<close>

definition addCountryCode :: "string \<Rightarrow> string" where
  "addCountryCode p = (if length (digitsOnly p) = 10 \<and> digitsOnly p = p then ''+1'' @ p else p)"

definition preSave :: "env \<Rightarrow> user option \<Rightarrow> user \<Rightarrow> user" where
  "preSave env old u =
     (case old of
        None \<Rightarrow> u\<lparr>password := hashPassword env (password u), phone := addCountryCode (phone u)\<rparr>
      | Some prev \<Rightarrow>
          u\<lparr>password := (if password u = password prev then password u
                         else hashPassword env (password u)),
            phone := (if phone u = phone prev then phone u else addCountryCode (phone u))\<rparr>)"

text \<open>
  \<^verbatim>\<open>User.create(doc)\<close>: the document gets its identifier and its creation time, goes
  through the hook, and is added to the collection.
\<close>

definition User_create :: "env \<Rightarrow> user \<Rightarrow> (world, user) io" where
  "User_create env doc =
     dbCall env Create
       (\<lambda>w. let d = preSave env None (doc\<lparr>uid := newObjectId env, createdAt := now env\<rparr>)
             in (Inr d, w\<lparr>users := users w @ [d]\<rparr>))"

text \<open>\<^verbatim>\<open>agent.save()\<close> of the document found at position \<open>i\<close>, \<open>old\<close> as it was loaded.\<close>

definition User_save :: "env \<Rightarrow> nat \<Rightarrow> user \<Rightarrow> user \<Rightarrow> (world, user) io" where
  "User_save env i old u =
     dbCall env Save
       (\<lambda>w. let d = preSave env (Some old) u in (Inr d, w\<lparr>users := (users w)[i := d]\<rparr>))"

definition User_countDocuments :: "env \<Rightarrow> cond list \<Rightarrow> (world, jsnum) io" where
  "User_countDocuments env q =
     dbCall env CountDocuments
       (withQuery env q (\<lambda>w. (Inr (toDouble (int (length (filter (matches env q) (users w))))), w)))"

text \<open>\<^verbatim>\<open>.sort({ createdAt: -1 })\<close>; documents of the same time keep their order.\<close>

definition sortByCreatedAtDesc :: "user list \<Rightarrow> user list" where
  "sortByCreatedAtDesc us = sort_key (\<lambda>u. - int (createdAt u)) us"

text \<open>
  \<^verbatim>\<open>.skip(n)\<close> and \<^verbatim>\<open>.limit(n)\<close> as MongoDB has them: a negative skip is rejected,
  a negative limit is the limit of its absolute value, and limit 0 is no limit. What the
  database does with a skip or a limit that is not an integer of magnitude below
  \<open>2 ^ 53\<close> is left to the environment (\<open>uncomputedPaging\<close>): it rejects the query, or
  skips and limits by some numbers.
\<close>

definition applyLimit :: "int option \<Rightarrow> 'a list \<Rightarrow> 'a list" where
  "applyLimit l xs = (case l of None \<Rightarrow> xs
                      | Some n \<Rightarrow> if n = 0 then xs else take (nat \<bar>n\<bar>) xs)"

definition applySkip :: "int option \<Rightarrow> 'a list \<Rightarrow> 'a list" where
  "applySkip s xs = (case s of None \<Rightarrow> xs | Some n \<Rightarrow> drop (nat n) xs)"

definition skipValid :: "int option \<Rightarrow> bool" where
  "skipValid s = (case s of None \<Rightarrow> True | Some n \<Rightarrow> 0 \<le> n)"

text \<open>\<^verbatim>\<open>.populate('categoryIds', 'name')\<close>: the categories the identifiers refer to.\<close>

definition populate :: "category list \<Rightarrow> user \<Rightarrow> category list" where
  "populate cs u = List.map_filter (\<lambda>i. find (\<lambda>c. cid c = i) cs) (categoryIds u)"

definition computed :: "jsnum option \<Rightarrow> int option option" where
  "computed v = (case v of None \<Rightarrow> Some None
                 | Some (Fin n) \<Rightarrow> if \<bar>n\<bar> < 2 ^ 53 then Some (Some n) else None
                 | Some _ \<Rightarrow> None)"

definition User_find ::
  "env \<Rightarrow> cond list \<Rightarrow> jsnum option \<Rightarrow> jsnum option \<Rightarrow> (world, (user \<times> category list) list) io" where
  "User_find env q s l =
     dbCall env Find
       (withQuery env q
          (case (computed s, computed l) of
             (Some s', Some l') \<Rightarrow>
               (if \<not> skipValid s' then throw (Error ''Skip value must be non-negative'')
                else (\<lambda>w. (Inr (map (\<lambda>u. (u, populate (categories w) u))
                                  (applyLimit l' (applySkip s'
                                     (sortByCreatedAtDesc (filter (matches env q) (users w)))))),
                            w)))
           | _ \<Rightarrow>
               (case uncomputedPaging env of
                  Inl msg \<Rightarrow> throw (Error msg)
                | Inr (a, b) \<Rightarrow>
                    (\<lambda>w. (Inr (map (\<lambda>u. (u, populate (categories w) u))
                                 (applyLimit (Some (int b)) (applySkip (Some (int a))
                                    (sortByCreatedAtDesc (filter (matches env q) (users w)))))),
                           w)))))"

definition Category_find :: "env \<Rightarrow> (world, category list) io" where
  "Category_find env = dbCall env CategoryFind (\<lambda>w. (Inr (categories w), w))"

definition Notification_create :: "env \<Rightarrow> notification \<Rightarrow> (world, unit) io" where
  "Notification_create env n =
     dbCall env NotificationCreate (\<lambda>w. (Inr (), w\<lparr>notifications := notifications w @ [n]\<rparr>))"

section \<open>Services outside the sources\<close>

definition logActivity :: "env \<Rightarrow> activity \<Rightarrow> (world, unit) io" where
  "logActivity env a =
     (case logActivityFault env of Some msg \<Rightarrow> throw (Error msg)
      | None \<Rightarrow> (\<lambda>w. (Inr (), w\<lparr>activityLog := activityLog w @ [a]\<rparr>)))"

definition sendPushNotification :: "env \<Rightarrow> push \<Rightarrow> (world, unit) io" where
  "sendPushNotification env p =
     (case pushFault env of Some msg \<Rightarrow> throw (Error msg)
      | None \<Rightarrow> (\<lambda>w. (Inr (), w\<lparr>pushes := pushes w @ [p]\<rparr>)))"

text \<open>
  \<^verbatim>\<open>apiInstance.sendTransacEmail(m)\<close>: the request is handed to the provider, which
  answers or rejects.
\<close>

definition sendTransacEmail :: "env \<Rightarrow> mail \<Rightarrow> (world, string) io" where
  "sendTransacEmail env m w =
     ((case brevoFault env of Some msg \<Rightarrow> Inl (Error msg) | None \<Rightarrow> Inr (brevoResult env)),
      w\<lparr>outbox := outbox w @ [m]\<rparr>)"

text \<open>\<^verbatim>\<open>res.status(c).json(b)\<close>; \<^verbatim>\<open>res.json(b)\<close> is status 200.\<close>

definition respond :: "nat \<Rightarrow> json \<Rightarrow> (world, unit) io" where
  "respond c b w = (Inr (), w\<lparr>sent := sent w @ [\<lparr>statusCode = c, payload = b\<rparr>]\<rparr>)"

section \<open>utils/emailService.js\<close>

definition getBrevoInstance :: "env \<Rightarrow> (world, unit) io" where
  "getBrevoInstance env =
     (if \<not> truthy (BREVO_API_KEY env)
      then throw (Error ''BREVO_API_KEY is not defined in environment variables'')
      else ret ())"

datatype recipient = To string | ToMany "string list"

text \<open>\<^verbatim>\<open>error.message || error\<close>\<close>

definition messageOrError :: "exn \<Rightarrow> json" where
  "messageOrError e = (if message e = [] then JObj [] else JStr (message e))"

definition sendEmail ::
  "env \<Rightarrow> recipient \<Rightarrow> string \<Rightarrow> html \<Rightarrow> string option \<Rightarrow> string option \<Rightarrow> (world, json) io" where
  "sendEmail env to subject htmlContent textContent replyTo =
     tryCatch
       (andThen (getBrevoInstance env) (\<lambda>apiInstance.
        let sendSmtpEmail =
              \<lparr>m_sender = (''Expand Machinery'', BREVO_API_EMEAIL env),
               m_to = (case to of ToMany es \<Rightarrow> es | To e \<Rightarrow> [e]),
               m_subject = subject,
               m_htmlContent = htmlContent,
               m_textContent = (if truthy textContent then textContent else None),
               m_replyTo = (if truthy replyTo then replyTo else None)\<rparr>
        in andThen (sendTransacEmail env sendSmtpEmail) (\<lambda>result.
           ret (JObj [(''success'', JBool True), (''data'', JStr result)]))))
       (\<lambda>error. ret (JObj [(''success'', JBool False), (''error'', messageOrError error)]))"

record ticket =
  t_id :: string
  ticketNumber :: "string option"
  t_status :: string
  updatedAt :: "nat option"
  t_createdAt :: nat

record customer =
  c_name :: "string option"
  c_email :: string

text \<open>The switch on the lowercased status: the subject and the template it assigns.\<close>

definition statusTemplate :: "string \<Rightarrow> string \<times> template" where
  "statusTemplate st =
     (if st = ''reopen'' \<or> st = ''reopened'' then (''Ticket Reopened - '', TicketReopened)
      else if st = ''pending'' then (''Ticket Pending - '', TicketPending)
      else if st = ''in_progress'' then (''Ticket In Progress - '', TicketInProgress)
      else if st = ''resolved'' then (''Ticket Resolved - '', TicketResolved)
      else if st = ''closed'' then (''Ticket Closed - '', TicketClosed)
      else (''Ticket Status Updated - '', TicketStatusUpdated))"

definition ticketSubject :: "ticket \<Rightarrow> string" where
  "ticketSubject t =
     fst (statusTemplate (toLowerCase (t_status t))) @ orOpt (ticketNumber t) (t_id t)"

definition ticketHtml :: "env \<Rightarrow> ticket \<Rightarrow> customer \<Rightarrow> html" where
  "ticketHtml env t c =
     (let customerName = orOpt (c_name c) ''Customer'';
          ticketNo = orOpt (ticketNumber t) (t_id t);
          updatedDate = toLocaleStringPST env
                          (case updatedAt t of None \<Rightarrow> t_createdAt t | Some d \<Rightarrow> d);
          tpl = snd (statusTemplate (toLowerCase (t_status t)))
      in if tpl = TicketStatusUpdated
         then Html tpl [toStr (APP_URL env), ticketNo, toUpperCase (t_status t), updatedDate]
         else Html tpl [toStr (APP_URL env), customerName, ticketNo, updatedDate])"

definition sendTicketUpdateStatusEmail :: "env \<Rightarrow> ticket \<Rightarrow> customer \<Rightarrow> (world, json) io" where
  "sendTicketUpdateStatusEmail env t c =
     tryCatch
       (andThen (sendEmail env (To (c_email c)) (ticketSubject t) (ticketHtml env t c) None None)
          (\<lambda>customerResult.
             ret (JArr [JObj [(''type'', JStr ''customer''), (''result'', customerResult)]])))
       (\<lambda>error. ret (JObj [(''success'', JBool False), (''error'', JStr (message error))]))"

section \<open>controllers/website/agentController.js\<close>

text \<open>The views of a document that the handlers put into their responses.\<close>

definition firstNameOf :: "string \<Rightarrow> string" where
  "firstNameOf n = (case splitOn CHR '' '' n of [] \<Rightarrow> [] | p # ps \<Rightarrow> orStr p [])"

definition lastNameOf :: "string \<Rightarrow> string" where
  "lastNameOf n = orStr (joinWith '' '' (drop 1 (splitOn CHR '' '' n))) []"

definition categoryJson :: "category \<Rightarrow> json" where
  "categoryJson c = JObj [(''_id'', JStr (cid c)), (''name'', JStr (cname c))]"

definition isActiveOrTrue :: "user \<Rightarrow> bool" where
  "isActiveOrTrue a = (case isActive a of None \<Rightarrow> True | Some b \<Rightarrow> b)"

definition agentView :: "user \<times> category list \<Rightarrow> json" where
  "agentView ac =
     (let a = fst ac in
      JObj [(''_id'', JStr (uid a)),
            (''firstName'', JStr (firstNameOf (name a))),
            (''lastName'', JStr (lastNameOf (name a))),
            (''name'', JStr (name a)),
            (''email'', JStr (email a)),
            (''phone'', JStr (orStr (phone a) [])),
            (''role'', JStr (role a)),
            (''categoryIds'', JArr (map categoryJson (snd ac))),
            (''status'', JStr (orStr (status a) ''offline'')),
            (''isActive'', JBool (isActiveOrTrue a)),
            (''createdAt'', JNum (int (createdAt a)))])"

definition exportRow :: "env \<Rightarrow> user \<times> category list \<Rightarrow> json" where
  "exportRow env ac =
     (let agent = fst ac;
          cats = orStr (joinWith '', '' (map cname (snd ac))) []
      in JObj [(''First Name'', JStr (firstNameOf (name agent))),
               (''Last Name'', JStr (lastNameOf (name agent))),
               (''Email'', JStr (email agent)),
               (''Phone'', JStr (orStr (phone agent) ''N/A'')),
               (''Status'', JStr (orStr (status agent) ''offline'')),
               (''Departments'', JStr cats),
               (''Created Date'', JStr (toLocaleDateString env (createdAt agent))),
               (''Created Time'', JStr (toLocaleTimeString env (createdAt agent)))])"

definition userJson :: "user \<Rightarrow> json" where
  "userJson u =
     JObj [(''_id'', JStr (uid u)),
           (''name'', JStr (name u)),
           (''email'', JStr (email u)),
           (''password'', JStr (password u)),
           (''role'', JStr (role u)),
           (''phone'', JStr (phone u)),
           (''categoryIds'', JArr (map JStr (categoryIds u))),
           (''status'', JStr (status u)),
           (''isActive'', (case isActive u of None \<Rightarrow> JUndefined | Some b \<Rightarrow> JBool b)),
           (''isDeleted'', JBool (isDeleted u)),
           (''deletedAt'', (case deletedAt u of None \<Rightarrow> JNull | Some d \<Rightarrow> JNum (int d))),
           (''createdAt'', JNum (int (createdAt u)))]"

definition serverError :: "string \<Rightarrow> json" where
  "serverError msg = JObj [(''success'', JBool False), (''message'', JStr msg)]"

definition agentNotFound :: json where
  "agentNotFound = JObj [(''success'', JBool False), (''message'', JStr ''Agent not found'')]"

subsection \<open>createAgent\<close>

definition welcomeHtml :: "reqBody \<Rightarrow> html" where
  "welcomeHtml b =
     Html AgentWelcome [toStr (firstName b), email_in b, toStr (password_in b)]"

definition createdJson :: "reqBody \<Rightarrow> user \<Rightarrow> json" where
  "createdJson b agent =
     JObj [(''success'', JBool True),
           (''message'', JStr ''Agent created successfully''),
           (''data'',
            JObj [(''_id'', JStr (uid agent)),
                  (''firstName'', jopt (firstName b)),
                  (''lastName'', jopt (lastName b)),
                  (''name'', JStr (name agent)),
                  (''email'', JStr (email agent)),
                  (''phone'', JStr (orOpt (phone_in b) [])),
                  (''role'', JStr (role agent)),
                  (''categoryIds'', JArr (map JStr (categoryIds agent))),
                  (''status'', JStr (orStr (status agent) ''offline'')),
                  (''createdAt'', JNum (int (createdAt agent)))])]"

definition newAgentDoc :: "env \<Rightarrow> reqBody \<Rightarrow> user" where
  "newAgentDoc env b =
     (schemaDefaults env)
       \<lparr>name := trim (toStr (firstName b) @ '' '' @ toStr (lastName b)),
        email := email_in b,
        password := toStr (password_in b),
        role := ''agent'',
        phone := (if truthy (phone_in b) then digitsOnly (toStr (phone_in b)) else []),
        categoryIds := (case categoryId b of None \<Rightarrow> [] | Some cs \<Rightarrow> cs),
        status := ''offline''\<rparr>"

text \<open>What follows the validation: lines 37 to 133.\<close>

definition createAgentStore :: "env \<Rightarrow> reqBody \<Rightarrow> (world, unit) io" where
  "createAgentStore env b =
     andThen (User_create env (newAgentDoc env b)) (\<lambda>agent.
     andThen (logActivity env
                \<lparr>a_userId = None,
                 a_message = ''Agent \"''
                   @ trim (toStr (firstName b) @ '' '' @ toStr (lastName b))
                   @ ''\" has been added'',
                 a_status = ''added''\<rparr>) (\<lambda>_.
     andThen (tryCatch
                (andThen (sendEmail env (To (email_in b))
                            ''Welcome to Expand Machinery - Agent Account Created''
                            (welcomeHtml b) None None)
                   (\<lambda>emailResult. ret ()))
                (\<lambda>emailError. ret ())) (\<lambda>_.
     andThen (tryCatch
                (sendPushNotification env
                   \<lparr>p_title = ''Welcome to the Team!'',
                    p_body = ''Your agent account has been created. Welcome aboard, ''
                      @ toStr (firstName b) @ ''!'',
                    p_data = JObj [(''type'', JStr ''agent_account_created''),
                                   (''agentId'', JStr (uid agent))],
                    p_userIds = [uid agent]\<rparr>)
                (\<lambda>pushError. ret ())) (\<lambda>_.
     respond 201 (createdJson b agent)))))"

definition normalizedPhone :: "string \<Rightarrow> string" where
  "normalizedPhone ph =
     (let phoneDigits = digitsOnly ph in
      if length phoneDigits = 10 then ''+1'' @ phoneDigits else ph)"

definition createAgent :: "env \<Rightarrow> request \<Rightarrow> (world, unit) io" where
  "createAgent env req =
     tryCatch
       (let b = body req in
        andThen (User_findOne env [Email_eq (email_in b)]) (\<lambda>existingEmail.
        if existingEmail \<noteq> None
        then respond 400 (JObj [(''message'', JStr ''User with this email already exists'')])
        else
          andThen (if truthy (phone_in b)
                   then User_findOne env [Phone_eq (normalizedPhone (toStr (phone_in b)))]
                   else ret None) (\<lambda>existingPhone.
          if existingPhone \<noteq> None
          then respond 400
                 (JObj [(''message'', JStr ''User with this phone number already exists'')])
          else if \<not> truthy (password_in b)
          then respond 400 (JObj [(''message'', JStr ''Password is required'')])
          else createAgentStore env b)))
       (\<lambda>error. respond 500 (serverError (orStr (message error) ''Server error'')))"

subsection \<open>getAgentsList\<close>

definition listQuery :: "string \<Rightarrow> cond list" where
  "listQuery search =
     (if search \<noteq> []
      then [Role_eq ''agent'', IsDeleted_eq False,
            Or_regex [(F_name, search), (F_email, search), (F_phone, search)]]
      else [Role_eq ''agent'', IsDeleted_eq False])"

definition agentsListJson ::
  "jsnum \<Rightarrow> jsnum \<Rightarrow> jsnum \<Rightarrow> jsnum \<Rightarrow> (user \<times> category list) list \<Rightarrow> json" where
  "agentsListJson page totalPages totalAgents limit agents =
     JObj [(''success'', JBool True),
           (''message'', JStr ''Agents list fetched successfully''),
           (''pagination'',
            JObj [(''currentPage'', jnum page),
                  (''totalPages'', jnum totalPages),
                  (''totalAgents'', jnum totalAgents),
                  (''hasNextPage'', jboolOpt (ltNum page totalPages)),
                  (''hasPrevPage'', jboolOpt (ltNum (Fin 1) page)),
                  (''limit'', jnum limit)]),
           (''data'', JArr (map agentView agents))]"

definition getAgentsList :: "env \<Rightarrow> request \<Rightarrow> (world, unit) io" where
  "getAgentsList env req =
     tryCatch
       (let page = parseIntOr (page_q (query req)) 1;
            limit = parseIntOr (limit_q (query req)) 10;
            skip = times (minusOne page) limit;
            search = orOpt (search_q (query req)) [];
            searchQuery = listQuery search
        in andThen (User_countDocuments env searchQuery) (\<lambda>totalAgents.
           let totalPages = ceilNum totalAgents limit in
           andThen (User_find env searchQuery (Some skip) (Some limit)) (\<lambda>agents.
           respond 200 (agentsListJson page totalPages totalAgents limit agents))))
       (\<lambda>error. respond 500 (serverError ''Server error''))"

subsection \<open>getAgent\<close>

definition getAgent :: "env \<Rightarrow> request \<Rightarrow> (world, unit) io" where
  "getAgent env req =
     tryCatch
       (andThen (User_findOne env [Id_eq (params_id req), Role_eq ''agent'']) (\<lambda>found.
        case found of
          None \<Rightarrow> respond 404 agentNotFound
        | Some (i, agent) \<Rightarrow>
            (\<lambda>w. respond 200
                    (JObj [(''success'', JBool True),
                           (''data'', agentView (agent, populate (categories w) agent))]) w)))
       (\<lambda>error. respond 500 (serverError ''Server error''))"

subsection \<open>updateAgent\<close>

definition updatedDoc :: "reqBody \<Rightarrow> user \<Rightarrow> user" where
  "updatedDoc b agent =
     (let a1 = (if truthy (firstName b) \<and> truthy (lastName b)
                then agent\<lparr>name := trim (toStr (firstName b) @ '' '' @ toStr (lastName b))\<rparr>
                else agent);
          a2 = (if email_in b \<noteq> [] then a1\<lparr>email := email_in b\<rparr> else a1);
          a3 = (case phone_in b of None \<Rightarrow> a2
                | Some ph \<Rightarrow> a2\<lparr>phone := (if ph \<noteq> [] then digitsOnly ph else [])\<rparr>);
          a4 = (case password_in b of None \<Rightarrow> a3
                | Some pw \<Rightarrow> if pw \<noteq> [] \<and> trim pw \<noteq> [] then a3\<lparr>password := pw\<rparr> else a3)
      in (case categoryId b of None \<Rightarrow> a4 | Some cs \<Rightarrow> a4\<lparr>categoryIds := cs\<rparr>))"

definition changesText :: "user \<Rightarrow> user \<Rightarrow> string" where
  "changesText original agent =
     (let changes =
            (if name original \<noteq> name agent
             then [''name: \"'' @ name original @ ''\" -> \"'' @ name agent @ ''\"''] else [])
          @ (if email original \<noteq> email agent
             then [''email: \"'' @ email original @ ''\" -> \"'' @ email agent @ ''\"''] else [])
          @ (if phone original \<noteq> phone agent
             then [''phone: \"'' @ phone original @ ''\" -> \"'' @ phone agent @ ''\"''] else [])
          @ (if joinWith '','' (categoryIds original) \<noteq> joinWith '','' (categoryIds agent)
             then [''categories: Changed''] else [])
      in if changes \<noteq> [] then '' (changes: '' @ joinWith '', '' changes @ '')'' else [])"

definition updatedJson :: "user \<Rightarrow> json" where
  "updatedJson agent =
     JObj [(''success'', JBool True),
           (''message'', JStr ''Agent updated successfully''),
           (''data'',
            JObj [(''_id'', JStr (uid agent)),
                  (''firstName'', JStr (firstNameOf (name agent))),
                  (''lastName'', JStr (lastNameOf (name agent))),
                  (''name'', JStr (name agent)),
                  (''email'', JStr (email agent)),
                  (''phone'', JStr (orStr (phone agent) [])),
                  (''categoryIds'', JArr (map JStr (categoryIds agent))),
                  (''createdAt'', JNum (int (createdAt agent)))])]"

definition updateAgent :: "env \<Rightarrow> request \<Rightarrow> (world, unit) io" where
  "updateAgent env req =
     tryCatch
       (andThen (User_findOne env [Id_eq (params_id req), Role_eq ''agent'']) (\<lambda>found.
        case found of
          None \<Rightarrow> respond 404 agentNotFound
        | Some (i, original) \<Rightarrow>
            andThen (User_save env i original (updatedDoc (body req) original)) (\<lambda>agent.
            andThen (logActivity env
                       \<lparr>a_userId = None,
                        a_message = ''You have successfully updated agent \"'' @ name agent
                          @ ''\"'' @ changesText original agent,
                        a_status = ''updated''\<rparr>) (\<lambda>_.
            andThen (tryCatch
                       (sendPushNotification env
                          \<lparr>p_title = ''Profile Updated'',
                           p_body = ''Your account information has been updated by the admin.'',
                           p_data = JObj [(''type'', JStr ''agent_profile_updated''),
                                          (''agentId'', JStr (uid agent))],
                           p_userIds = [uid agent]\<rparr>)
                       (\<lambda>pushError. ret ())) (\<lambda>_.
            respond 200 (updatedJson agent))))))
       (\<lambda>error. respond 500 (serverError (orStr (message error) ''Server error'')))"

subsection \<open>deleteAgent\<close>

definition deleteAgent :: "env \<Rightarrow> request \<Rightarrow> (world, unit) io" where
  "deleteAgent env req =
     tryCatch
       (andThen (User_findOne env [Id_eq (params_id req), Role_eq ''agent'']) (\<lambda>found.
        case found of
          None \<Rightarrow> respond 404 agentNotFound
        | Some (i, agent0) \<Rightarrow>
            if isDeleted agent0
            then respond 400 (JObj [(''message'', JStr ''Agent is already deleted'')])
            else
              andThen (User_save env i agent0
                         (agent0\<lparr>isDeleted := True, deletedAt := Some (now env)\<rparr>)) (\<lambda>agent.
              let agentName = name agent in
              andThen (Notification_create env
                         \<lparr>n_title = ''Agent Removed'',
                          n_message = ''Agent '' @ agentName @ '' has been deleted by you'',
                          n_type = ''warning'',
                          n_category = ''agent'',
                          n_userId = user_id req,
                          n_metadata = JObj [(''agentId'', JStr (uid agent)),
                                             (''agentName'', JStr agentName),
                                             (''action'', JStr ''deleted'')]\<rparr>) (\<lambda>_.
              andThen (logActivity env
                         \<lparr>a_userId = None,
                          a_message = ''Agent \"'' @ agentName @ ''\" has been deleted'',
                          a_status = ''deleted''\<rparr>) (\<lambda>_.
              respond 200 (JObj [(''success'', JBool True),
                                 (''message'', JStr ''Agent deleted successfully'')]))))))
       (\<lambda>error. respond 500 (serverError ''Server error''))"

subsection \<open>getCategoryList\<close>

definition getCategoryList :: "env \<Rightarrow> request \<Rightarrow> (world, unit) io" where
  "getCategoryList env req =
     tryCatch
       (andThen (Category_find env) (\<lambda>categoryList.
        respond 200 (JObj [(''success'', JBool True),
                           (''data'', JArr (map categoryJson categoryList))])))
       (\<lambda>error. respond 500 (serverError ''Server error''))"

subsection \<open>toggleAgentStatus\<close>

definition toggleAgentStatus :: "env \<Rightarrow> request \<Rightarrow> (world, unit) io" where
  "toggleAgentStatus env req =
     tryCatch
       (andThen (User_findById env (params_id req)) (\<lambda>found.
        case found of
          None \<Rightarrow> respond 404 agentNotFound
        | Some (i, agent0) \<Rightarrow>
            if role agent0 \<noteq> ''agent''
            then respond 400 (JObj [(''success'', JBool False),
                                    (''message'', JStr ''User is not an agent'')])
            else
              andThen (User_save env i agent0
                         (agent0\<lparr>isActive := Some (\<not> (isActive agent0 = Some True))\<rparr>)) (\<lambda>agent.
              let action = (if isActive agent = Some True then ''activated''
                            else ''deactivated'') in
              andThen (logActivity env
                         \<lparr>a_userId = Some (uid agent),
                          a_message = ''Agent ('' @ email agent @ '') '' @ action,
                          a_status = ''updated''\<rparr>) (\<lambda>_.
              respond 200 (JObj [(''success'', JBool True),
                                 (''message'', JStr (''Agent '' @ action @ '' successfully'')),
                                 (''data'', userJson agent)])))))
       (\<lambda>error. respond 500 (serverError ''Server error''))"

subsection \<open>exportAgents\<close>

definition exportQuery :: "string \<Rightarrow> cond list" where
  "exportQuery search =
     (if search \<noteq> []
      then [Role_eq ''agent'',
            Or_regex [(F_name, search), (F_email, search), (F_phone, search)]]
      else [Role_eq ''agent''])"

definition exportJson :: "json list \<Rightarrow> json" where
  "exportJson exportData =
     JObj [(''success'', JBool True),
           (''message'', JStr ''Agents data exported successfully''),
           (''count'', JNum (int (length exportData))),
           (''data'', JArr exportData)]"

definition exportAgents :: "env \<Rightarrow> request \<Rightarrow> (world, unit) io" where
  "exportAgents env req =
     tryCatch
       (let search = orOpt (search_q (query req)) [];
            searchQuery = exportQuery search
        in andThen (User_find env searchQuery None None) (\<lambda>agents.
           respond 200 (exportJson (map (exportRow env) agents))))
       (\<lambda>error. respond 500 (serverError ''Server error''))"

section \<open>Auxiliary notions\<close>

text \<open>
  A block of a handler responds once at a world: when it completes it has sent one
  response, with a status below 500, and when it throws it has sent none.
\<close>

definition respondsOnce :: "(world, unit) io \<Rightarrow> world \<Rightarrow> bool" where
  "respondsOnce m w =
     (case m w of
        (Inr u, w') \<Rightarrow> length (sent w') = Suc (length (sent w))
                      \<and> butlast (sent w') = sent w
                      \<and> statusCode (last (sent w')) \<in> set [200, 201, 400, 404]
      | (Inl e, w') \<Rightarrow> sent w' = sent w)"

text \<open>The notification that \<^verbatim>\<open>deleteAgent\<close> creates for the agent it deleted.\<close>

definition deletedNotification :: "request \<Rightarrow> user \<Rightarrow> notification" where
  "deletedNotification req agent =
     \<lparr>n_title = ''Agent Removed'',
      n_message = ''Agent '' @ name agent @ '' has been deleted by you'',
      n_type = ''warning'',
      n_category = ''agent'',
      n_userId = user_id req,
      n_metadata = JObj [(''agentId'', JStr (uid agent)),
                         (''agentName'', JStr (name agent)),
                         (''action'', JStr ''deleted'')]\<rparr>"

text \<open>A string begins, or ends, with white space.\<close>

definition beginsWhite :: "string \<Rightarrow> bool" where
  "beginsWhite s = list_ex (\<lambda>p. startsWith p s) whiteSpaces"

definition endsWhite :: "string \<Rightarrow> bool" where
  "endsWhite s = list_ex (\<lambda>p. startsWith (rev p) (rev s)) whiteSpaces"

section \<open>Example values\<close>

text \<open>
  A regular-expression engine for the examples: a pattern of letters and digits matches
  the strings that contain it, whatever the case; \<^verbatim>\<open>(\<close> and a pattern that begins with
  the quantifier \<^verbatim>\<open>+\<close> are no regular expressions.
\<close>

fun containsStr :: "string \<Rightarrow> string \<Rightarrow> bool" where
  "containsStr p [] = (p = [])"
| "containsStr p (x # xs) = (take (length p) (x # xs) = p \<or> containsStr p xs)"

definition exampleRegexI :: "string \<Rightarrow> (string \<Rightarrow> bool) option" where
  "exampleRegexI p =
     (if p = ''('' \<or> take 1 p = ''+'' then None
      else Some (\<lambda>s. containsStr (toLowerCase p) (toLowerCase s)))"

definition alice :: user where
  "alice = \<lparr>uid = ''u1'', name = ''Alice Stone'', email = ''alice@example.com'',
            password = ''#pw1'', role = ''agent'', phone = ''+15551234567'',
            categoryIds = [''c1''], status = ''online'', isActive = Some True,
            isDeleted = False, deletedAt = None, createdAt = 10\<rparr>"

definition bob :: user where
  "bob = \<lparr>uid = ''u2'', name = ''Bob Hill'', email = ''bob@example.com'',
          password = ''#pw2'', role = ''customer'', phone = [],
          categoryIds = [], status = [], isActive = None,
          isDeleted = False, deletedAt = None, createdAt = 20\<rparr>"

definition carol :: user where
  "carol = \<lparr>uid = ''u3'', name = ''Carol Alba'', email = ''carol@example.com'',
            password = ''#pw3'', role = ''agent'', phone = ''+15559876543'',
            categoryIds = [], status = ''offline'', isActive = Some False,
            isDeleted = True, deletedAt = Some 50, createdAt = 30\<rparr>"

text \<open>An environment with no mail key and a push service that rejects.\<close>

definition env0 :: env where
  "env0 = \<lparr>dbFault = (\<lambda>op. None), logActivityFault = None,
           pushFault = Some ''push service unavailable'',
           BREVO_API_KEY = None, BREVO_API_EMEAIL = None, APP_URL = None,
           brevoFault = None, brevoResult = ''sent'',
           newObjectId = ''u4'', now = 100,
           schemaDefaults = \<lparr>uid = [], name = [], email = [], password = [], role = ''customer'',
                              phone = [], categoryIds = [], status = ''offline'',
                              isActive = Some True, isDeleted = False, deletedAt = None,
                              createdAt = 0\<rparr>,
           hashPassword = (\<lambda>p. ''#'' @ p),
           regexI = exampleRegexI,
           uncomputedPaging = Inl ''number out of range'',
           toLocaleDateString = (\<lambda>d. ''date''), toLocaleTimeString = (\<lambda>d. ''time''),
           toLocaleStringPST = (\<lambda>d. ''date and time'')\<rparr>"

definition world0 :: world where
  "world0 = \<lparr>users = [alice, bob, carol],
             categories = [\<lparr>cid = ''c1'', cname = ''Support''\<rparr>],
             notifications = [], activityLog = [], pushes = [], outbox = [], sent = []\<rparr>"

definition noQuery :: reqQuery where
  "noQuery = \<lparr>page_q = None, limit_q = None, search_q = None\<rparr>"

definition noBody :: reqBody where
  "noBody = \<lparr>firstName = None, lastName = None, email_in = [], phone_in = None,
              password_in = None, categoryId = None\<rparr>"

definition createReq :: request where
  "createReq = \<lparr>params_id = [],
                body = \<lparr>firstName = Some ''Dana'', lastName = Some ''Reed'',
                         email_in = ''dana@example.com'', phone_in = Some ''(555) 000-1111'',
                         password_in = Some ''secret'', categoryId = None\<rparr>,
                query = noQuery, user_id = Some ''admin''\<rparr>"

definition exampleTicket :: "string \<Rightarrow> ticket" where
  "exampleTicket st = \<lparr>t_id = ''t1'', ticketNumber = Some ''TKT-7'', t_status = st,
                        updatedAt = None, t_createdAt = 5\<rparr>"

definition envKey :: env where
  "envKey = env0\<lparr>BREVO_API_KEY := Some ''xkeysib-1''\<rparr>"

definition exampleCustomer :: customer where
  "exampleCustomer = \<lparr>c_name = Some ''Erin'', c_email = ''erin@example.com''\<rparr>"

definition dupEmailReq :: request where
  "dupEmailReq = createReq\<lparr>body := (body createReq)\<lparr>email_in := ''alice@example.com'',
                                                      password_in := None\<rparr>\<rparr>"

definition dupPhoneReq :: request where
  "dupPhoneReq = createReq\<lparr>body := (body createReq)\<lparr>phone_in := Some ''(555) 123-4567'',
                                                      password_in := None\<rparr>\<rparr>"

definition noPasswordReq :: request where
  "noPasswordReq = createReq\<lparr>body := (body createReq)\<lparr>password_in := None\<rparr>\<rparr>"

definition bobReq :: request where
  "bobReq = \<lparr>params_id = ''u2'', body = noBody, query = noQuery, user_id = Some ''admin''\<rparr>"

definition aliceReq :: request where
  "aliceReq = \<lparr>params_id = ''u1'', body = noBody, query = noQuery, user_id = Some ''admin''\<rparr>"


definition searchReq :: "string \<Rightarrow> request" where
  "searchReq s = \<lparr>params_id = [], body = noBody,
                  query = \<lparr>page_q = None, limit_q = None, search_q = Some s\<rparr>,
                  user_id = Some ''admin''\<rparr>"

definition dave :: user where
  "dave = \<lparr>uid = ''u5'', name = ''Dave Moss'', email = ''dave@example.com'',
           password = ''#pw5'', role = ''agent'', phone = [],
           categoryIds = [], status = ''offline'', isActive = Some True,
           isDeleted = False, deletedAt = None, createdAt = 40\<rparr>"

definition world1 :: world where
  "world1 = world0\<lparr>users := [alice, bob, carol, dave]\<rparr>"

definition pageReq :: "string option \<Rightarrow> string option \<Rightarrow> request" where
  "pageReq p l = \<lparr>params_id = [], body = noBody,
                  query = \<lparr>page_q = p, limit_q = l, search_q = None\<rparr>,
                  user_id = Some ''admin''\<rparr>"

definition newAgentReq :: request where
  "newAgentReq = \<lparr>params_id = ''u4'', body = noBody, query = noQuery, user_id = Some ''admin''\<rparr>"

definition trailingReq :: request where
  "trailingReq = createReq\<lparr>body := (body createReq)\<lparr>lastName := Some ''Reed ''\<rparr>\<rparr>"

text \<open>The last name \<^verbatim>\<open>Reed\<close> followed by U+00A0, the no-break space.\<close>

definition nbspReq :: request where
  "nbspReq = createReq\<lparr>body := (body createReq)\<lparr>lastName := Some (''Reed'' @ [CHR 0xC2, CHR 0xA0])\<rparr>\<rparr>"

section \<open>The monad and the database\<close>

lemmas io_defs = ret_def throw_def andThen_def tryCatch_def

lemma findFirst_None: "findFirst P xs = None \<longleftrightarrow> (\<forall>x\<in>set xs. \<not> P x)"
  by (induction xs) (auto split: option.splits)

lemma findFirst_Some:
  "findFirst P xs = Some (i, y) \<Longrightarrow>
     i < length xs \<and> xs ! i = y \<and> P y \<and> (\<forall>j<i. \<not> P (xs ! j))"
proof (induction xs arbitrary: i y)
  case Nil
  then show ?case by simp
next
  case (Cons x xs)
  show ?case
  proof (cases "P x")
    case True
    with Cons.prems show ?thesis by simp
  next
    case False
    with Cons.prems obtain k where k: "findFirst P xs = Some (k, y)" "i = Suc k"
      by (auto split: option.splits)
    from Cons.IH[OF k(1)] False k(2) show ?thesis
      by (auto simp: less_Suc_eq_0_disj)
  qed
qed

lemma User_findOne_ok:
  "dbFault env FindOne = None \<Longrightarrow> list_all (condValid env) q \<Longrightarrow>
   User_findOne env q w = (Inr (findFirst (matches env q) (users w)), w)"
  by (simp add: User_findOne_def dbCall_def withQuery_def)

lemma User_findOne_fault:
  "dbFault env FindOne = Some msg \<Longrightarrow> User_findOne env q w = (Inl (Error msg), w)"
  by (simp add: User_findOne_def dbCall_def throw_def)

section \<open>What sendEmail returns\<close>

lemma sendEmail_eq:
  "sendEmail env to subject h txt rt w =
     (if \<not> truthy (BREVO_API_KEY env)
      then (Inr (JObj [(''success'', JBool False),
                       (''error'',
                        JStr ''BREVO_API_KEY is not defined in environment variables'')]), w)
      else (Inr (case brevoFault env of
                   Some msg \<Rightarrow> JObj [(''success'', JBool False),
                                     (''error'', messageOrError (Error msg))]
                 | None \<Rightarrow> JObj [(''success'', JBool True), (''data'', JStr (brevoResult env))]),
            w\<lparr>outbox := outbox w @
               [\<lparr>m_sender = (''Expand Machinery'', BREVO_API_EMEAIL env),
                 m_to = (case to of ToMany es \<Rightarrow> es | To e \<Rightarrow> [e]),
                 m_subject = subject,
                 m_htmlContent = h,
                 m_textContent = (if truthy txt then txt else None),
                 m_replyTo = (if truthy rt then rt else None)\<rparr>]\<rparr>))"
  by (simp add: sendEmail_def getBrevoInstance_def sendTransacEmail_def io_defs
        messageOrError_def split: option.splits)

lemma createAgentStore_ok:
  assumes "dbFault env Create = None" "logActivityFault env = None"
  shows "\<exists>w'. createAgentStore env b w = (Inr (), w')
           \<and> users w' = users w @ [preSave env None
                 ((newAgentDoc env b)\<lparr>uid := newObjectId env, createdAt := now env\<rparr>)]
           \<and> sent w' = sent w @ [\<lparr>statusCode = 201, payload = createdJson b
                (preSave env None
                   ((newAgentDoc env b)\<lparr>uid := newObjectId env, createdAt := now env\<rparr>))\<rparr>]"
  using assms
  by (simp add: createAgentStore_def User_create_def dbCall_def logActivity_def sendEmail_eq
        sendPushNotification_def respond_def io_defs Let_def split: option.splits)

section \<open>sendEmail never throws, and createAgent does not depend on it\<close>

lemma createAgent_validated:
  assumes db: "dbFault env FindOne = None"
    and e: "\<forall>u\<in>set (users w). email u \<noteq> email_in (body req)"
    and p: "truthy (phone_in (body req)) \<longrightarrow>
            (\<forall>u\<in>set (users w). phone u \<noteq> normalizedPhone (toStr (phone_in (body req))))"
    and pw: "truthy (password_in (body req))"
  shows "createAgent env req w =
           tryCatch (createAgentStore env (body req))
             (\<lambda>error. respond 500 (serverError (orStr (message error) ''Server error''))) w"
proof -
  have 1: "findFirst (matches env [Email_eq (email_in (body req))]) (users w) = None"
    using e by (simp add: findFirst_None matches_def)
  have 2: "findFirst (matches env [Phone_eq (normalizedPhone (toStr (phone_in (body req))))]) (users w) = None"
    if "truthy (phone_in (body req))"
    using p that by (simp add: findFirst_None matches_def)
  show ?thesis
    using pw 1 2
    by (simp add: createAgent_def Let_def io_defs User_findOne_ok[OF db])
qed


lemmas ex_defs = env0_def world0_def createReq_def alice_def bob_def carol_def noQuery_def noBody_def


section \<open>sendTicketUpdateStatusEmail\<close>

lemma of_char_lt: "(of_char c :: nat) < 256"
  by (cases c) simp

lemma lowerChar_upperChar: "lowerChar (upperChar c) = lowerChar c"
proof (cases "97 \<le> (of_char c :: nat) \<and> (of_char c :: nat) \<le> 122")
  case True
  define n :: nat where "n = of_char c"
  have lt: "n < 256" unfolding n_def by (rule of_char_lt)
  from True have r: "97 \<le> n" "n \<le> 122" by (simp_all add: n_def)
  have m: "(n - 32) mod 256 = n - 32" using lt by simp
  have u: "upperChar c = char_of (n - 32)"
    using r by (simp add: upperChar_def Let_def n_def)
  have r': "65 \<le> n - 32" "n - 32 \<le> 90" using r by arith+
  have "lowerChar (char_of (n - 32)) = char_of (n - 32 + 32)"
    using r' by (simp add: lowerChar_def Let_def m)
  also have "n - 32 + 32 = n" using r by simp
  also have "char_of n = c" by (simp add: n_def)
  finally have "lowerChar (upperChar c) = c" by (simp add: u)
  moreover have "lowerChar c = c"
    using r by (simp add: lowerChar_def Let_def n_def)
  ultimately show ?thesis by simp
next
  case False
  then show ?thesis by (auto simp add: lowerChar_def upperChar_def Let_def)
qed

lemma toLowerCase_toUpperCase: "toLowerCase (toUpperCase s) = toLowerCase s"
  by (simp add: toLowerCase_def toUpperCase_def lowerChar_upperChar)

text \<open>
  C5: \<^verbatim>\<open>sendTicketUpdateStatusEmail\<close> chooses the subject and the HTML template by the
  lowercased status of the ticket: \<^verbatim>\<open>reopen\<close> and \<^verbatim>\<open>reopened\<close> give
  \<^verbatim>\<open>Ticket Reopened - <ticketNumber>\<close>, \<^verbatim>\<open>pending\<close> gives \<^verbatim>\<open>Ticket Pending\<close>,
  \<^verbatim>\<open>in_progress\<close> gives \<^verbatim>\<open>Ticket In Progress\<close>, \<^verbatim>\<open>resolved\<close> gives
  \<^verbatim>\<open>Ticket Resolved\<close>, \<^verbatim>\<open>closed\<close> gives \<^verbatim>\<open>Ticket Closed\<close>, and every other
  status gives \<^verbatim>\<open>Ticket Status Updated\<close>, where the ticket number is
  \<^verbatim>\<open>ticket.ticketNumber || ticket._id\<close>. The choice does not depend on the case of the
  status (uppercasing the status changes neither the subject nor the template). Each call
  makes exactly one call of \<^verbatim>\<open>sendEmail\<close>, to the customer's address with that subject
  and template, and returns the one-element array holding its result under the type
  \<^verbatim>\<open>customer\<close>; with the mail key configured that is exactly one request handed to the
  provider.
\<close>

theorem sendTicketUpdateStatusEmail_by_status:
  "(toLowerCase (t_status t) = ''reopen'' \<or> toLowerCase (t_status t) = ''reopened'' \<longrightarrow>
      ticketSubject t = ''Ticket Reopened - '' @ orOpt (ticketNumber t) (t_id t)
      \<and> templateOf (ticketHtml env t c) = TicketReopened)
   \<and> (toLowerCase (t_status t) = ''pending'' \<longrightarrow>
      ticketSubject t = ''Ticket Pending - '' @ orOpt (ticketNumber t) (t_id t)
      \<and> templateOf (ticketHtml env t c) = TicketPending)
   \<and> (toLowerCase (t_status t) = ''in_progress'' \<longrightarrow>
      ticketSubject t = ''Ticket In Progress - '' @ orOpt (ticketNumber t) (t_id t)
      \<and> templateOf (ticketHtml env t c) = TicketInProgress)
   \<and> (toLowerCase (t_status t) = ''resolved'' \<longrightarrow>
      ticketSubject t = ''Ticket Resolved - '' @ orOpt (ticketNumber t) (t_id t)
      \<and> templateOf (ticketHtml env t c) = TicketResolved)
   \<and> (toLowerCase (t_status t) = ''closed'' \<longrightarrow>
      ticketSubject t = ''Ticket Closed - '' @ orOpt (ticketNumber t) (t_id t)
      \<and> templateOf (ticketHtml env t c) = TicketClosed)
   \<and> (toLowerCase (t_status t) \<noteq> ''reopen'' \<and> toLowerCase (t_status t) \<noteq> ''reopened''
      \<and> toLowerCase (t_status t) \<noteq> ''pending'' \<and> toLowerCase (t_status t) \<noteq> ''in_progress''
      \<and> toLowerCase (t_status t) \<noteq> ''resolved'' \<and> toLowerCase (t_status t) \<noteq> ''closed'' \<longrightarrow>
      ticketSubject t = ''Ticket Status Updated - '' @ orOpt (ticketNumber t) (t_id t)
      \<and> templateOf (ticketHtml env t c) = TicketStatusUpdated)
   \<and> ticketSubject (t\<lparr>t_status := toUpperCase (t_status t)\<rparr>) = ticketSubject t
   \<and> templateOf (ticketHtml env (t\<lparr>t_status := toUpperCase (t_status t)\<rparr>) c)
       = templateOf (ticketHtml env t c)
   \<and> (\<exists>r. fst (sendEmail env (To (c_email c)) (ticketSubject t) (ticketHtml env t c)
                  None None w) = Inr r
          \<and> sendTicketUpdateStatusEmail env t c w =
              (Inr (JArr [JObj [(''type'', JStr ''customer''), (''result'', r)]]),
               snd (sendEmail env (To (c_email c)) (ticketSubject t) (ticketHtml env t c)
                      None None w)))
   \<and> (truthy (BREVO_API_KEY env) \<longrightarrow>
        outbox (snd (sendTicketUpdateStatusEmail env t c w)) =
          outbox w @ [\<lparr>m_sender = (''Expand Machinery'', BREVO_API_EMEAIL env),
                        m_to = [c_email c],
                        m_subject = ticketSubject t,
                        m_htmlContent = ticketHtml env t c,
                        m_textContent = None,
                        m_replyTo = None\<rparr>])"
proof -
  have sel: "ticketSubject t
               = fst (statusTemplate (toLowerCase (t_status t))) @ orOpt (ticketNumber t) (t_id t)"
    "templateOf (ticketHtml env t c) = snd (statusTemplate (toLowerCase (t_status t)))"
    by (simp_all add: ticketSubject_def ticketHtml_def Let_def)
  have up: "ticketSubject (t\<lparr>t_status := toUpperCase (t_status t)\<rparr>) = ticketSubject t"
    "templateOf (ticketHtml env (t\<lparr>t_status := toUpperCase (t_status t)\<rparr>) c)
       = templateOf (ticketHtml env t c)"
    by (simp_all add: ticketSubject_def ticketHtml_def Let_def toLowerCase_toUpperCase)
  have send: "\<exists>r. fst (sendEmail env (To (c_email c)) (ticketSubject t) (ticketHtml env t c)
                  None None w) = Inr r
          \<and> sendTicketUpdateStatusEmail env t c w =
              (Inr (JArr [JObj [(''type'', JStr ''customer''), (''result'', r)]]),
               snd (sendEmail env (To (c_email c)) (ticketSubject t) (ticketHtml env t c)
                      None None w))"
    by (simp add: sendTicketUpdateStatusEmail_def io_defs sendEmail_eq)
  have out: "truthy (BREVO_API_KEY env) \<longrightarrow>
        outbox (snd (sendTicketUpdateStatusEmail env t c w)) =
          outbox w @ [\<lparr>m_sender = (''Expand Machinery'', BREVO_API_EMEAIL env),
                        m_to = [c_email c],
                        m_subject = ticketSubject t,
                        m_htmlContent = ticketHtml env t c,
                        m_textContent = None,
                        m_replyTo = None\<rparr>]"
    by (simp add: sendTicketUpdateStatusEmail_def io_defs sendEmail_eq truthy_def)
  have c1: "toLowerCase (t_status t) = ''reopen'' \<or> toLowerCase (t_status t) = ''reopened'' \<longrightarrow>
      ticketSubject t = ''Ticket Reopened - '' @ orOpt (ticketNumber t) (t_id t)
      \<and> templateOf (ticketHtml env t c) = TicketReopened"
    by (auto simp: sel statusTemplate_def)
  have c2: "toLowerCase (t_status t) = ''pending'' \<longrightarrow>
      ticketSubject t = ''Ticket Pending - '' @ orOpt (ticketNumber t) (t_id t)
      \<and> templateOf (ticketHtml env t c) = TicketPending"
    by (simp add: sel statusTemplate_def)
  have c3: "toLowerCase (t_status t) = ''in_progress'' \<longrightarrow>
      ticketSubject t = ''Ticket In Progress - '' @ orOpt (ticketNumber t) (t_id t)
      \<and> templateOf (ticketHtml env t c) = TicketInProgress"
    by (simp add: sel statusTemplate_def)
  have c4: "toLowerCase (t_status t) = ''resolved'' \<longrightarrow>
      ticketSubject t = ''Ticket Resolved - '' @ orOpt (ticketNumber t) (t_id t)
      \<and> templateOf (ticketHtml env t c) = TicketResolved"
    by (simp add: sel statusTemplate_def)
  have c5: "toLowerCase (t_status t) = ''closed'' \<longrightarrow>
      ticketSubject t = ''Ticket Closed - '' @ orOpt (ticketNumber t) (t_id t)
      \<and> templateOf (ticketHtml env t c) = TicketClosed"
    by (simp add: sel statusTemplate_def)
  have c6: "toLowerCase (t_status t) \<noteq> ''reopen'' \<and> toLowerCase (t_status t) \<noteq> ''reopened''
      \<and> toLowerCase (t_status t) \<noteq> ''pending'' \<and> toLowerCase (t_status t) \<noteq> ''in_progress''
      \<and> toLowerCase (t_status t) \<noteq> ''resolved'' \<and> toLowerCase (t_status t) \<noteq> ''closed'' \<longrightarrow>
      ticketSubject t = ''Ticket Status Updated - '' @ orOpt (ticketNumber t) (t_id t)
      \<and> templateOf (ticketHtml env t c) = TicketStatusUpdated"
    by (simp add: sel statusTemplate_def)
  show ?thesis
    by (intro conjI) (rule c1 c2 c3 c4 c5 c6 up send out)+
qed

theorem sendTicketUpdateStatusEmail_by_status_witness:
  "ticketSubject (exampleTicket ''Reopen'') = ''Ticket Reopened - TKT-7''
   \<and> ticketSubject (exampleTicket ''REOPENED'') = ''Ticket Reopened - TKT-7''
   \<and> ticketSubject (exampleTicket ''Pending'') = ''Ticket Pending - TKT-7''
   \<and> ticketSubject (exampleTicket ''In_Progress'') = ''Ticket In Progress - TKT-7''
   \<and> ticketSubject (exampleTicket ''resolved'') = ''Ticket Resolved - TKT-7''
   \<and> ticketSubject (exampleTicket ''ClOsEd'') = ''Ticket Closed - TKT-7''
   \<and> ticketSubject (exampleTicket ''on hold'') = ''Ticket Status Updated - TKT-7''
   \<and> truthy (BREVO_API_KEY envKey)
   \<and> concat (map m_to (outbox (snd (sendTicketUpdateStatusEmail envKey
              (exampleTicket ''ClOsEd'') exampleCustomer world0)))) = [''erin@example.com'']
   \<and> map m_subject (outbox (snd (sendTicketUpdateStatusEmail envKey (exampleTicket ''ClOsEd'')
                              exampleCustomer world0))) = [''Ticket Closed - TKT-7'']"
proof -
  note lower = toLowerCase_def lowerChar_def char_of_def bit_0
  note ex = exampleTicket_def orOpt_def orStr_def
  note inst = sendTicketUpdateStatusEmail_by_status
    [where env = envKey and c = exampleCustomer and w = world0]
  have 1: "ticketSubject (exampleTicket ''Reopen'') = ''Ticket Reopened - TKT-7''"
    using inst[where t = "exampleTicket ''Reopen''", THEN conjunct1]
    by (simp add: ex lower)
  have 2: "ticketSubject (exampleTicket ''REOPENED'') = ''Ticket Reopened - TKT-7''"
    using inst[where t = "exampleTicket ''REOPENED''", THEN conjunct1]
    by (simp add: ex lower)
  have 3: "ticketSubject (exampleTicket ''Pending'') = ''Ticket Pending - TKT-7''"
    using inst[where t = "exampleTicket ''Pending''", THEN conjunct2, THEN conjunct1]
    by (simp add: ex lower)
  have 4: "ticketSubject (exampleTicket ''In_Progress'') = ''Ticket In Progress - TKT-7''"
    using inst[where t = "exampleTicket ''In_Progress''", THEN conjunct2, THEN conjunct2,
        THEN conjunct1]
    by (simp add: ex lower)
  have 5: "ticketSubject (exampleTicket ''resolved'') = ''Ticket Resolved - TKT-7''"
    using inst[where t = "exampleTicket ''resolved''", THEN conjunct2, THEN conjunct2,
        THEN conjunct2, THEN conjunct1]
    by (simp add: ex lower)
  have 6: "ticketSubject (exampleTicket ''ClOsEd'') = ''Ticket Closed - TKT-7''"
    using inst[where t = "exampleTicket ''ClOsEd''", THEN conjunct2, THEN conjunct2,
        THEN conjunct2, THEN conjunct2, THEN conjunct1]
    by (simp add: ex lower)
  have 7: "ticketSubject (exampleTicket ''on hold'') = ''Ticket Status Updated - TKT-7''"
    using inst[where t = "exampleTicket ''on hold''", THEN conjunct2, THEN conjunct2,
        THEN conjunct2, THEN conjunct2, THEN conjunct2, THEN conjunct1]
    by (simp add: ex lower)
  have k: "truthy (BREVO_API_KEY envKey)"
    by (simp add: envKey_def truthy_def)
  have out: "outbox (snd (sendTicketUpdateStatusEmail envKey (exampleTicket ''ClOsEd'')
                              exampleCustomer world0))
             = outbox world0 @ [\<lparr>m_sender = (''Expand Machinery'', BREVO_API_EMEAIL envKey),
                        m_to = [c_email exampleCustomer],
                        m_subject = ticketSubject (exampleTicket ''ClOsEd''),
                        m_htmlContent = ticketHtml envKey (exampleTicket ''ClOsEd'') exampleCustomer,
                        m_textContent = None,
                        m_replyTo = None\<rparr>]"
    using inst[where t = "exampleTicket ''ClOsEd''", THEN conjunct2, THEN conjunct2,
        THEN conjunct2, THEN conjunct2, THEN conjunct2, THEN conjunct2, THEN conjunct2,
        THEN conjunct2, THEN conjunct2] k
    by blast
  have 8: "concat (map m_to (outbox (snd (sendTicketUpdateStatusEmail envKey
              (exampleTicket ''ClOsEd'') exampleCustomer world0)))) = [''erin@example.com'']"
    unfolding out by (simp add: world0_def exampleCustomer_def)
  have 9: "map m_subject (outbox (snd (sendTicketUpdateStatusEmail envKey
              (exampleTicket ''ClOsEd'') exampleCustomer world0))) = [''Ticket Closed - TKT-7'']"
    unfolding out by (simp add: world0_def 6)
  show ?thesis
    by (intro conjI) (rule 1 2 3 4 5 6 7 8 9 k)+
qed

section \<open>The validation of createAgent\<close>

lemma findFirst_email:
  "findFirst (matches env [Email_eq e]) us = None \<longleftrightarrow> (\<forall>u\<in>set us. email u \<noteq> e)"
  by (simp add: findFirst_None matches_def)

lemma findFirst_phone:
  "findFirst (matches env [Phone_eq p]) us = None \<longleftrightarrow> (\<forall>u\<in>set us. phone u \<noteq> p)"
  by (simp add: findFirst_None matches_def)

text \<open>
  C2: the validation of \<^verbatim>\<open>createAgent\<close>, the lookups of the database having returned.
  If some user already has the email of the request, the response is 400
  \<^verbatim>\<open>User with this email already exists\<close>. Otherwise, if a phone is supplied and some
  user already has the normalized phone (the digits of the input with \<^verbatim>\<open>+1\<close> in front
  when there are exactly 10 of them, and the input as it is otherwise), the response is
  400 \<^verbatim>\<open>User with this phone number already exists\<close>. Otherwise, if the password is
  absent (or empty), the response is 400 \<^verbatim>\<open>Password is required\<close>. In each case the
  world afterwards is the world before with that one response added: no document is
  created, nothing is logged or sent. The first two cases put no condition on the
  password, so both checks come before the check of the password.
\<close>

theorem createAgent_validation:
  "(dbFault env FindOne = None \<and> (\<exists>u\<in>set (users w). email u = email_in (body req)) \<longrightarrow>
      createAgent env req w =
        (Inr (), w\<lparr>sent := sent w @
           [\<lparr>statusCode = 400,
             payload = JObj [(''message'', JStr ''User with this email already exists'')]\<rparr>]\<rparr>))
   \<and> (dbFault env FindOne = None \<and> (\<forall>u\<in>set (users w). email u \<noteq> email_in (body req))
       \<and> truthy (phone_in (body req))
       \<and> (\<exists>u\<in>set (users w).
             phone u = (if length (digitsOnly (toStr (phone_in (body req)))) = 10
                        then ''+1'' @ digitsOnly (toStr (phone_in (body req)))
                        else toStr (phone_in (body req)))) \<longrightarrow>
      createAgent env req w =
        (Inr (), w\<lparr>sent := sent w @
           [\<lparr>statusCode = 400,
             payload = JObj [(''message'',
                              JStr ''User with this phone number already exists'')]\<rparr>]\<rparr>))
   \<and> (dbFault env FindOne = None \<and> (\<forall>u\<in>set (users w). email u \<noteq> email_in (body req))
       \<and> (truthy (phone_in (body req)) \<longrightarrow>
             (\<forall>u\<in>set (users w).
                phone u \<noteq> (if length (digitsOnly (toStr (phone_in (body req)))) = 10
                            then ''+1'' @ digitsOnly (toStr (phone_in (body req)))
                            else toStr (phone_in (body req)))))
       \<and> \<not> truthy (password_in (body req)) \<longrightarrow>
      createAgent env req w =
        (Inr (), w\<lparr>sent := sent w @
           [\<lparr>statusCode = 400,
             payload = JObj [(''message'', JStr ''Password is required'')]\<rparr>]\<rparr>))"
proof (intro conjI impI)
  assume a: "dbFault env FindOne = None \<and> (\<exists>u\<in>set (users w). email u = email_in (body req))"
  then have "findFirst (matches env [Email_eq (email_in (body req))]) (users w) \<noteq> None"
    by (simp add: findFirst_email)
  with a show "createAgent env req w =
        (Inr (), w\<lparr>sent := sent w @
           [\<lparr>statusCode = 400,
             payload = JObj [(''message'', JStr ''User with this email already exists'')]\<rparr>]\<rparr>)"
    by (simp add: createAgent_def Let_def io_defs User_findOne_ok respond_def)
next
  assume a: "dbFault env FindOne = None \<and> (\<forall>u\<in>set (users w). email u \<noteq> email_in (body req))
       \<and> truthy (phone_in (body req))
       \<and> (\<exists>u\<in>set (users w).
             phone u = (if length (digitsOnly (toStr (phone_in (body req)))) = 10
                        then ''+1'' @ digitsOnly (toStr (phone_in (body req)))
                        else toStr (phone_in (body req))))"
  then have 1: "findFirst (matches env [Email_eq (email_in (body req))]) (users w) = None"
    by (simp add: findFirst_email)
  from a have 2: "findFirst (matches env
                     [Phone_eq (normalizedPhone (toStr (phone_in (body req))))]) (users w) \<noteq> None"
    by (simp add: findFirst_phone normalizedPhone_def Let_def)
  from a 1 2 show "createAgent env req w =
        (Inr (), w\<lparr>sent := sent w @
           [\<lparr>statusCode = 400,
             payload = JObj [(''message'',
                              JStr ''User with this phone number already exists'')]\<rparr>]\<rparr>)"
    by (simp add: createAgent_def Let_def io_defs User_findOne_ok respond_def)
next
  assume a: "dbFault env FindOne = None \<and> (\<forall>u\<in>set (users w). email u \<noteq> email_in (body req))
       \<and> (truthy (phone_in (body req)) \<longrightarrow>
             (\<forall>u\<in>set (users w).
                phone u \<noteq> (if length (digitsOnly (toStr (phone_in (body req)))) = 10
                            then ''+1'' @ digitsOnly (toStr (phone_in (body req)))
                            else toStr (phone_in (body req)))))
       \<and> \<not> truthy (password_in (body req))"
  then have 1: "findFirst (matches env [Email_eq (email_in (body req))]) (users w) = None"
    by (simp add: findFirst_email)
  from a have 2: "truthy (phone_in (body req)) \<longrightarrow> findFirst (matches env
                     [Phone_eq (normalizedPhone (toStr (phone_in (body req))))]) (users w) = None"
    by (simp add: findFirst_phone normalizedPhone_def Let_def)
  from a 1 2 show "createAgent env req w =
        (Inr (), w\<lparr>sent := sent w @
           [\<lparr>statusCode = 400,
             payload = JObj [(''message'', JStr ''Password is required'')]\<rparr>]\<rparr>)"
    by (simp add: createAgent_def Let_def io_defs User_findOne_ok respond_def)
qed

lemma digitsOnly_examples:
  "digitsOnly ''(555) 123-4567'' = ''5551234567''"
  "digitsOnly ''(555) 000-1111'' = ''5550001111''"
  by (simp_all add: digitsOnly_def isDigit_def)

theorem createAgent_validation_witness:
  "createAgent env0 dupEmailReq world0 =
     (Inr (), world0\<lparr>sent :=
        [\<lparr>statusCode = 400,
          payload = JObj [(''message'', JStr ''User with this email already exists'')]\<rparr>]\<rparr>)
   \<and> createAgent env0 dupPhoneReq world0 =
     (Inr (), world0\<lparr>sent :=
        [\<lparr>statusCode = 400,
          payload = JObj [(''message'', JStr ''User with this phone number already exists'')]\<rparr>]\<rparr>)
   \<and> createAgent env0 noPasswordReq world0 =
     (Inr (), world0\<lparr>sent :=
        [\<lparr>statusCode = 400, payload = JObj [(''message'', JStr ''Password is required'')]\<rparr>]\<rparr>)"
proof -
  have 1: "createAgent env0 dupEmailReq world0 =
     (Inr (), world0\<lparr>sent :=
        [\<lparr>statusCode = 400,
          payload = JObj [(''message'', JStr ''User with this email already exists'')]\<rparr>]\<rparr>)"
    using createAgent_validation[of env0 world0 dupEmailReq, THEN conjunct1]
    by (simp add: ex_defs dupEmailReq_def)
  have 2: "createAgent env0 dupPhoneReq world0 =
     (Inr (), world0\<lparr>sent :=
        [\<lparr>statusCode = 400,
          payload = JObj [(''message'', JStr ''User with this phone number already exists'')]\<rparr>]\<rparr>)"
    using createAgent_validation[of env0 world0 dupPhoneReq, THEN conjunct2, THEN conjunct1]
    by (simp add: ex_defs dupPhoneReq_def truthy_def toStr_def digitsOnly_examples)
  have 3: "createAgent env0 noPasswordReq world0 =
     (Inr (), world0\<lparr>sent :=
        [\<lparr>statusCode = 400, payload = JObj [(''message'', JStr ''Password is required'')]\<rparr>]\<rparr>)"
    using createAgent_validation[of env0 world0 noPasswordReq, THEN conjunct2, THEN conjunct2]
    by (simp add: ex_defs noPasswordReq_def truthy_def toStr_def digitsOnly_examples)
  show ?thesis by (intro conjI) (rule 1 2 3)+
qed

section \<open>Every handler responds exactly once\<close>

lemma respond_once: "c \<in> set [200, 201, 400, 404] \<Longrightarrow> respondsOnce (respond c b) w"
  by (simp add: respondsOnce_def respond_def)

lemma andThen_once:
  assumes "sent (snd (m w)) = sent w"
    and "\<And>x w'. m w = (Inr x, w') \<Longrightarrow> respondsOnce (f x) w'"
  shows "respondsOnce (andThen m f) w"
proof (cases "m w")
  case (Pair r w')
  with assms(1) have s: "sent w' = sent w" by simp
  show ?thesis
  proof (cases r)
    case (Inl e)
    with Pair s show ?thesis
      by (simp add: respondsOnce_def andThen_def)
  next
    case (Inr x)
    with Pair have "respondsOnce (f x) w'" by (intro assms(2)) simp
    then have "case f x w' of
        (Inr u, w'') \<Rightarrow> length (sent w'') = Suc (length (sent w))
                      \<and> butlast (sent w'') = sent w
                      \<and> statusCode (last (sent w'')) \<in> set [200, 201, 400, 404]
      | (Inl e, w'') \<Rightarrow> sent w'' = sent w"
      unfolding respondsOnce_def s .
    with Pair Inr show ?thesis
      by (simp add: respondsOnce_def andThen_def)
  qed
qed

lemma if_once:
  "(c \<Longrightarrow> respondsOnce a w) \<Longrightarrow> (\<not> c \<Longrightarrow> respondsOnce b w)
     \<Longrightarrow> respondsOnce (if c then a else b) w"
  by simp

lemma sent_if:
  "(c \<Longrightarrow> sent (snd (a w)) = sent w) \<Longrightarrow> (\<not> c \<Longrightarrow> sent (snd (b w)) = sent w)
     \<Longrightarrow> sent (snd ((if c then a else b) w)) = sent w"
  by simp

lemma sent_ret: "sent (snd (ret x w)) = sent w"
  by (simp add: ret_def)

lemma tryCatch_quiet:
  assumes "sent (snd (m w)) = sent w"
  shows "\<exists>w'. tryCatch m (\<lambda>e. ret ()) w = (Inr (), w') \<and> sent w' = sent w"
  using assms by (cases "m w") (auto simp: tryCatch_def ret_def split: sum.splits)

lemma handler_once:
  assumes "respondsOnce m w"
  shows "fst (tryCatch m (\<lambda>error. respond 500 (g error)) w) = Inr ()
          \<and> (\<exists>r. sent (snd (tryCatch m (\<lambda>error. respond 500 (g error)) w)) = sent w @ [r]
                  \<and> statusCode r \<in> set [200, 201, 400, 404, 500])"
proof (cases "m w")
  case (Pair r w')
  show ?thesis
  proof (cases r)
    case (Inl e)
    with Pair assms show ?thesis
      by (simp add: respondsOnce_def tryCatch_def respond_def)
  next
    case (Inr x)
    with Pair assms have l: "length (sent w') = Suc (length (sent w))"
      and b: "butlast (sent w') = sent w"
      and c: "statusCode (last (sent w')) \<in> set [200, 201, 400, 404]"
      by (simp_all add: respondsOnce_def)
    from l have ne: "sent w' \<noteq> []" by auto
    then have "sent w' = butlast (sent w') @ [last (sent w')]" by simp
    with b have "sent w' = sent w @ [last (sent w')]" by simp
    with Pair Inr c show ?thesis
      by (auto simp add: tryCatch_def)
  qed
qed

lemma sent_dbCall:
  "(\<And>w. sent (snd (m w)) = sent w) \<Longrightarrow> sent (snd (dbCall env op m w)) = sent w"
  by (simp add: dbCall_def throw_def split: option.splits)

lemma sent_withQuery:
  "(\<And>w. sent (snd (m w)) = sent w) \<Longrightarrow> sent (snd (withQuery env q m w)) = sent w"
  by (simp add: withQuery_def throw_def)

lemma sent_User_findOne: "sent (snd (User_findOne env q w)) = sent w"
  unfolding User_findOne_def by (intro sent_dbCall sent_withQuery) simp

lemma sent_User_findById: "sent (snd (User_findById env i w)) = sent w"
  unfolding User_findById_def by (intro sent_dbCall) simp

lemma sent_User_create: "sent (snd (User_create env d w)) = sent w"
  unfolding User_create_def by (intro sent_dbCall) (simp add: Let_def)

lemma sent_User_save: "sent (snd (User_save env i old u w)) = sent w"
  unfolding User_save_def by (intro sent_dbCall) (simp add: Let_def)

lemma sent_User_countDocuments: "sent (snd (User_countDocuments env q w)) = sent w"
  unfolding User_countDocuments_def by (intro sent_dbCall sent_withQuery) simp

lemma sent_User_find: "sent (snd (User_find env q s l w)) = sent w"
  unfolding User_find_def
  by (intro sent_dbCall sent_withQuery)
     (simp add: throw_def split: option.splits sum.splits prod.splits)

lemma sent_Category_find: "sent (snd (Category_find env w)) = sent w"
  unfolding Category_find_def by (intro sent_dbCall) simp

lemma sent_Notification_create: "sent (snd (Notification_create env n w)) = sent w"
  unfolding Notification_create_def by (intro sent_dbCall) simp

lemma sent_logActivity: "sent (snd (logActivity env a w)) = sent w"
  by (simp add: logActivity_def throw_def split: option.splits)

lemma sent_sendPushNotification: "sent (snd (sendPushNotification env p w)) = sent w"
  by (simp add: sendPushNotification_def throw_def split: option.splits)

lemma sent_sendEmail: "sent (snd (sendEmail env to s h t r w)) = sent w"
  by (simp add: sendEmail_eq)

lemma sent_tryCatch_quiet:
  assumes "sent (snd (m w)) = sent w"
  shows "sent (snd (tryCatch m (\<lambda>e. ret ()) w)) = sent w"
  using tryCatch_quiet[of m w] assms by auto

lemma sent_andThen_ret:
  assumes "sent (snd (m w)) = sent w"
  shows "sent (snd (andThen m (\<lambda>x. ret ()) w)) = sent w"
  using assms by (cases "m w") (auto simp: andThen_def ret_def split: sum.splits)

lemma createAgentStore_once: "respondsOnce (createAgentStore env b) w"
  unfolding createAgentStore_def
  by (intro andThen_once sent_User_create sent_logActivity sent_tryCatch_quiet
        sent_andThen_ret sent_sendEmail sent_sendPushNotification respond_once) simp

lemma found_once:
  "(x = None \<Longrightarrow> respondsOnce a w) \<Longrightarrow> (\<And>i u. x = Some (i, u) \<Longrightarrow> respondsOnce (f i u) w)
     \<Longrightarrow> respondsOnce (case x of None \<Rightarrow> a | Some (i, u) \<Rightarrow> f i u) w"
  by (cases x) auto

lemma respond_once_world:
  "c \<in> set [200, 201, 400, 404] \<Longrightarrow> respondsOnce (\<lambda>w. respond c (g w) w) w"
  by (simp add: respondsOnce_def respond_def)

lemmas once_intros =
  andThen_once if_once found_once sent_if sent_ret respond_once respond_once_world
  sent_User_findOne sent_User_findById sent_User_create sent_User_save
  sent_User_countDocuments sent_User_find sent_Category_find sent_Notification_create
  sent_logActivity sent_sendPushNotification sent_sendEmail sent_tryCatch_quiet
  sent_andThen_ret

text \<open>
  C10: every handler of the agent controller sends exactly one response on every path.
  Whatever the request, the world and the environment (so whichever calls reject), each
  of the eight handlers returns without throwing, and the responses sent afterwards are
  those sent before followed by exactly one more, whose status is 200, 201, 400, 404 or
  500.
\<close>

theorem handlers_respond_exactly_once:
  "list_all
     (\<lambda>handler. fst (handler env req w) = Inr ()
        \<and> (\<exists>r. sent (snd (handler env req w)) = sent w @ [r]
                \<and> statusCode r \<in> set [200, 201, 400, 404, 500]))
     [createAgent, getAgentsList, getAgent, updateAgent, deleteAgent, getCategoryList,
      toggleAgentStatus, exportAgents]"
proof -
  have 1: "fst (createAgent env req w) = Inr ()
        \<and> (\<exists>r. sent (snd (createAgent env req w)) = sent w @ [r]
                \<and> statusCode r \<in> set [200, 201, 400, 404, 500])"
    unfolding createAgent_def Let_def
    by (intro handler_once once_intros createAgentStore_once) simp_all
  have 2: "fst (getAgentsList env req w) = Inr ()
        \<and> (\<exists>r. sent (snd (getAgentsList env req w)) = sent w @ [r]
                \<and> statusCode r \<in> set [200, 201, 400, 404, 500])"
    unfolding getAgentsList_def Let_def
    by (intro handler_once once_intros createAgentStore_once) simp_all
  have 3: "fst (getAgent env req w) = Inr ()
        \<and> (\<exists>r. sent (snd (getAgent env req w)) = sent w @ [r]
                \<and> statusCode r \<in> set [200, 201, 400, 404, 500])"
    unfolding getAgent_def Let_def
    by (intro handler_once once_intros createAgentStore_once) simp_all
  have 4: "fst (updateAgent env req w) = Inr ()
        \<and> (\<exists>r. sent (snd (updateAgent env req w)) = sent w @ [r]
                \<and> statusCode r \<in> set [200, 201, 400, 404, 500])"
    unfolding updateAgent_def Let_def
    by (intro handler_once once_intros createAgentStore_once) simp_all
  have 5: "fst (deleteAgent env req w) = Inr ()
        \<and> (\<exists>r. sent (snd (deleteAgent env req w)) = sent w @ [r]
                \<and> statusCode r \<in> set [200, 201, 400, 404, 500])"
    unfolding deleteAgent_def Let_def
    by (intro handler_once once_intros createAgentStore_once) simp_all
  have 6: "fst (getCategoryList env req w) = Inr ()
        \<and> (\<exists>r. sent (snd (getCategoryList env req w)) = sent w @ [r]
                \<and> statusCode r \<in> set [200, 201, 400, 404, 500])"
    unfolding getCategoryList_def Let_def
    by (intro handler_once once_intros createAgentStore_once) simp_all
  have 7: "fst (toggleAgentStatus env req w) = Inr ()
        \<and> (\<exists>r. sent (snd (toggleAgentStatus env req w)) = sent w @ [r]
                \<and> statusCode r \<in> set [200, 201, 400, 404, 500])"
    unfolding toggleAgentStatus_def Let_def
    by (intro handler_once once_intros createAgentStore_once) simp_all
  have 8: "fst (exportAgents env req w) = Inr ()
        \<and> (\<exists>r. sent (snd (exportAgents env req w)) = sent w @ [r]
                \<and> statusCode r \<in> set [200, 201, 400, 404, 500])"
    unfolding exportAgents_def Let_def
    by (intro handler_once once_intros createAgentStore_once) simp_all
  show ?thesis
    unfolding list_all_Cons_iff list_all_Nil_iff by (intro conjI TrueI 1 2 3 4 5 6 7 8)
qed

section \<open>The agent-role invariant\<close>

lemma users_dbCall:
  "(\<And>w. users (snd (m w)) = users w) \<Longrightarrow> users (snd (dbCall env op m w)) = users w"
  by (simp add: dbCall_def throw_def split: option.splits)

lemma users_withQuery:
  "(\<And>w. users (snd (m w)) = users w) \<Longrightarrow> users (snd (withQuery env q m w)) = users w"
  by (simp add: withQuery_def throw_def)

lemma users_User_findOne: "users (snd (User_findOne env q w)) = users w"
  unfolding User_findOne_def by (intro users_dbCall users_withQuery) simp

lemma users_User_findById: "users (snd (User_findById env i w)) = users w"
  unfolding User_findById_def by (intro users_dbCall) simp

lemma users_logActivity: "users (snd (logActivity env a w)) = users w"
  by (simp add: logActivity_def throw_def split: option.splits)

lemma users_Notification_create: "users (snd (Notification_create env n w)) = users w"
  by (simp add: Notification_create_def dbCall_def throw_def split: option.splits)

lemma users_sendPushNotification: "users (snd (sendPushNotification env p w)) = users w"
  by (simp add: sendPushNotification_def throw_def split: option.splits)

lemma users_sendEmail: "users (snd (sendEmail env to s h t r w)) = users w"
  by (simp add: sendEmail_eq)

lemma users_respond: "users (snd (respond c b w)) = users w"
  by (simp add: respond_def)

lemma users_ret: "users (snd (ret x w)) = users w"
  by (simp add: ret_def)

lemma users_tryCatch_ret:
  assumes "users (snd (m w)) = users w"
  shows "users (snd (tryCatch m (\<lambda>e. ret x) w)) = users w"
  using assms by (cases "m w") (auto simp: tryCatch_def ret_def split: sum.splits)

lemma users_tryCatch_respond:
  "users (snd (tryCatch m (\<lambda>e. respond c (g e)) w)) = users (snd (m w))"
  by (cases "m w") (auto simp: tryCatch_def respond_def split: sum.splits)

lemma users_andThen:
  assumes "users (snd (m w)) = users w"
    and "\<And>x w'. m w = (Inr x, w') \<Longrightarrow> users (snd (f x w')) = users w'"
  shows "users (snd (andThen m f w)) = users w"
proof (cases "m w")
  case (Pair r w')
  with assms(1) have s: "users w' = users w" by simp
  show ?thesis
  proof (cases r)
    case (Inl e)
    with Pair s show ?thesis by (simp add: andThen_def)
  next
    case (Inr x)
    with Pair assms(2)[of x w'] s show ?thesis by (simp add: andThen_def)
  qed
qed

text \<open>After a step that leaves the collection as it is, a property of the collection
  afterwards is a property of what follows.\<close>

lemma andThen_users_prop:
  assumes "users (snd (m w)) = users w"
    and "P (users w)"
    and "\<And>x w'. m w = (Inr x, w') \<Longrightarrow> users w' = users w \<Longrightarrow> P (users (snd (f x w')))"
  shows "P (users (snd (andThen m f w)))"
proof (cases "m w")
  case (Pair r w')
  with assms(1) have s: "users w' = users w" by simp
  show ?thesis
  proof (cases r)
    case (Inl e)
    with Pair s assms(2) show ?thesis by (simp add: andThen_def)
  next
    case (Inr x)
    with Pair assms(3)[of x w'] s show ?thesis by (simp add: andThen_def)
  qed
qed

lemma users_User_create:
  "users (snd (User_create env d w)) = users w
   \<or> User_create env d w =
       (Inr (preSave env None (d\<lparr>uid := newObjectId env, createdAt := now env\<rparr>)),
        w\<lparr>users := users w @ [preSave env None (d\<lparr>uid := newObjectId env, createdAt := now env\<rparr>)]\<rparr>)"
  by (simp add: User_create_def dbCall_def throw_def Let_def split: option.splits)

lemma users_User_save:
  "users (snd (User_save env i old u w)) = users w
   \<or> User_save env i old u w =
       (Inr (preSave env (Some old) u), w\<lparr>users := (users w)[i := preSave env (Some old) u]\<rparr>)"
  by (simp add: User_save_def dbCall_def throw_def Let_def split: option.splits)

lemma preSave_role_status:
  "role (preSave env old u) = role u" "status (preSave env old u) = status u"
  "uid (preSave env old u) = uid u" "name (preSave env old u) = name u"
  by (simp_all add: preSave_def split: option.splits)

lemma createAgentStore_users:
  "users (snd (createAgentStore env b w)) = users w
   \<or> (\<exists>u. users (snd (createAgentStore env b w)) = users w @ [u]
          \<and> role u = ''agent'' \<and> status u = ''offline'')"
proof -
  let ?d = "preSave env None ((newAgentDoc env b)\<lparr>uid := newObjectId env, createdAt := now env\<rparr>)"
  have rs: "role ?d = ''agent''" "status ?d = ''offline''"
    by (simp_all add: preSave_role_status newAgentDoc_def)
  from users_User_create[of env "newAgentDoc env b" w]
  show ?thesis
  proof
    assume "users (snd (User_create env (newAgentDoc env b) w)) = users w"
    then have "users (snd (createAgentStore env b w)) = users w"
      unfolding createAgentStore_def
      by (intro users_andThen users_logActivity users_tryCatch_ret users_sendEmail
            users_sendPushNotification users_respond users_ret) simp_all
    then show ?thesis ..
  next
    assume c: "User_create env (newAgentDoc env b) w = (Inr ?d, w\<lparr>users := users w @ [?d]\<rparr>)"
    have "users (snd (createAgentStore env b w)) = users (w\<lparr>users := users w @ [?d]\<rparr>)"
      unfolding createAgentStore_def
      apply (subst andThen_def)
      apply (simp only: c prod.case sum.case)
      apply (intro users_andThen users_logActivity users_tryCatch_ret users_sendEmail
            users_sendPushNotification users_respond users_ret)
      done
    with rs show ?thesis by auto
  qed
qed

lemma createAgent_users:
  "users (snd (createAgent env req w)) = users w
   \<or> (\<exists>u. users (snd (createAgent env req w)) = users w @ [u]
          \<and> role u = ''agent'' \<and> status u = ''offline'')"
  unfolding createAgent_def users_tryCatch_respond Let_def
proof (rule andThen_users_prop[where P = "\<lambda>us. us = users w
          \<or> (\<exists>u. us = users w @ [u] \<and> role u = ''agent'' \<and> status u = ''offline'')"],
       goal_cases)
  case 1
  show ?case by (rule users_User_findOne)
next
  case 2
  show ?case by simp
next
  case (3 x w')
  show ?case
  proof (cases "x \<noteq> None")
    case True
    with 3 show ?thesis by (simp add: users_respond)
  next
    case False
    have "users (snd (andThen
               (if truthy (phone_in (body req))
                then User_findOne env [Phone_eq (normalizedPhone (toStr (phone_in (body req))))]
                else ret None)
               (\<lambda>existingPhone.
                   if existingPhone \<noteq> None
                   then respond 400
                         (JObj [(''message'', JStr ''User with this phone number already exists'')])
                   else if \<not> truthy (password_in (body req))
                        then respond 400 (JObj [(''message'', JStr ''Password is required'')])
                        else createAgentStore env (body req)) w')) = users w'
          \<or> (\<exists>u. users (snd (andThen
               (if truthy (phone_in (body req))
                then User_findOne env [Phone_eq (normalizedPhone (toStr (phone_in (body req))))]
                else ret None)
               (\<lambda>existingPhone.
                   if existingPhone \<noteq> None
                   then respond 400
                         (JObj [(''message'', JStr ''User with this phone number already exists'')])
                   else if \<not> truthy (password_in (body req))
                        then respond 400 (JObj [(''message'', JStr ''Password is required'')])
                        else createAgentStore env (body req)) w')) = users w' @ [u]
                \<and> role u = ''agent'' \<and> status u = ''offline'')"
    proof (rule andThen_users_prop[where P = "\<lambda>us. us = users w'
          \<or> (\<exists>u. us = users w' @ [u] \<and> role u = ''agent'' \<and> status u = ''offline'')"],
       goal_cases)
      case 1
      show ?case by (simp add: users_User_findOne users_ret)
    next
      case 2
      show ?case by simp
    next
      case (3 y w'')
      with createAgentStore_users[of env "body req" w''] show ?case
        by (auto simp: users_respond)
    qed
    with False 3 show ?thesis by simp
  qed
qed

lemma User_findOne_result:
  "User_findOne env q w = (Inr r, w') \<Longrightarrow> w' = w \<and> r = findFirst (matches env q) (users w)"
  by (auto simp: User_findOne_def dbCall_def withQuery_def throw_def
        split: option.splits if_splits)

lemma User_findById_result:
  "User_findById env i w = (Inr r, w') \<Longrightarrow> w' = w \<and> r = findFirst (\<lambda>u. uid u = i) (users w)"
  by (auto simp: User_findById_def dbCall_def throw_def split: option.splits)

lemma save_then_users:
  assumes "\<And>x w'. users (snd (f x w')) = users w'"
  shows "users (snd (andThen (User_save env i old u) f w)) = users w
         \<or> users (snd (andThen (User_save env i old u) f w))
              = (users w)[i := preSave env (Some old) u]"
  using users_User_save[of env i old u w]
proof
  assume "users (snd (User_save env i old u w)) = users w"
  then have "users (snd (andThen (User_save env i old u) f w)) = users w"
    by (intro users_andThen assms)
  then show ?thesis ..
next
  assume "User_save env i old u w =
       (Inr (preSave env (Some old) u), w\<lparr>users := (users w)[i := preSave env (Some old) u]\<rparr>)"
  then show ?thesis by (simp add: andThen_def assms)
qed

text \<open>A handler that saves only the document it found leaves the others as they are.\<close>

lemma found_agent_frame:
  assumes f: "findFirst (matches env [Id_eq k, Role_eq ''agent'']) us = Some (i, a)"
    and u: "us' = us \<or> us' = us[i := d]"
  shows "length us' = length us
         \<and> (\<forall>j<length us. role (us ! j) \<noteq> ''agent'' \<longrightarrow> us' ! j = us ! j)"
proof -
  from findFirst_Some[OF f] have "i < length us" "role (us ! i) = ''agent''"
    by (simp_all add: matches_def)
  with u show ?thesis by (auto simp: nth_list_update)
qed

lemma getAgent_users: "users (snd (getAgent env req w)) = users w"
  unfolding getAgent_def users_tryCatch_respond
  by (rule users_andThen, rule users_User_findOne)
     (auto simp: users_respond split: option.splits)

lemma save_then_found:
  assumes "findFirst (matches env [Id_eq k, Role_eq ''agent'']) (users w) = Some (i, a)"
    and "\<And>x w'. users (snd (f x w')) = users w'"
  shows "users (snd (andThen (User_save env i a u) f w)) = users w
         \<or> (\<exists>j b d. findFirst (matches env [Id_eq k, Role_eq ''agent'']) (users w) = Some (j, b)
                \<and> users (snd (andThen (User_save env i a u) f w)) = (users w)[j := d])"
  using save_then_users[of f env i a u w, OF assms(2)] assms(1) by auto

lemma updateAgent_users:
  "users (snd (updateAgent env req w)) = users w
   \<or> (\<exists>i a d. findFirst (matches env [Id_eq (params_id req), Role_eq ''agent'']) (users w)
                 = Some (i, a)
              \<and> users (snd (updateAgent env req w)) = (users w)[i := d])"
  unfolding updateAgent_def users_tryCatch_respond
proof (rule andThen_users_prop[where P = "\<lambda>us. us = users w
          \<or> (\<exists>i a d. findFirst (matches env [Id_eq (params_id req), Role_eq ''agent''])
                        (users w) = Some (i, a) \<and> us = (users w)[i := d])"], goal_cases)
  case 1
  show ?case by (rule users_User_findOne)
next
  case 2
  show ?case by simp
next
  case (3 x w')
  from User_findOne_result[OF 3(1)]
  have x: "findFirst (matches env [Id_eq (params_id req), Role_eq ''agent'']) (users w) = x"
    and w': "w' = w" by simp_all
  show ?case
  proof (cases x)
    case None
    then show ?thesis by (simp add: users_respond w')
  next
    case (Some p)
    obtain i a where p: "p = (i, a)" by (cases p)
    from x have f: "findFirst (matches env [Id_eq (params_id req), Role_eq ''agent'']) (users w)
                      = Some (i, a)"
      by (simp add: Some p)
    show ?thesis
      unfolding Some p w' option.case prod.case
      by (rule save_then_found[OF f])
         (intro users_andThen users_logActivity users_tryCatch_ret
            users_sendPushNotification users_respond)
  qed
qed

lemma deleteAgent_users:
  "users (snd (deleteAgent env req w)) = users w
   \<or> (\<exists>i a d. findFirst (matches env [Id_eq (params_id req), Role_eq ''agent'']) (users w)
                 = Some (i, a)
              \<and> users (snd (deleteAgent env req w)) = (users w)[i := d])"
  unfolding deleteAgent_def users_tryCatch_respond Let_def
proof (rule andThen_users_prop[where P = "\<lambda>us. us = users w
          \<or> (\<exists>i a d. findFirst (matches env [Id_eq (params_id req), Role_eq ''agent''])
                        (users w) = Some (i, a) \<and> us = (users w)[i := d])"], goal_cases)
  case 1
  show ?case by (rule users_User_findOne)
next
  case 2
  show ?case by simp
next
  case (3 x w')
  from User_findOne_result[OF 3(1)]
  have x: "findFirst (matches env [Id_eq (params_id req), Role_eq ''agent'']) (users w) = x"
    and w': "w' = w" by simp_all
  show ?case
  proof (cases x)
    case None
    then show ?thesis by (simp add: users_respond w')
  next
    case (Some p)
    obtain i a where p: "p = (i, a)" by (cases p)
    from x have f: "findFirst (matches env [Id_eq (params_id req), Role_eq ''agent'']) (users w)
                      = Some (i, a)"
      by (simp add: Some p)
    show ?thesis
    proof (cases "isDeleted a")
      case True
      then show ?thesis by (simp add: Some p w' users_respond)
    next
      case False
      show ?thesis
        unfolding Some p w' option.case prod.case if_not_P[OF False]
        by (rule save_then_found[OF f])
           (intro users_andThen users_logActivity users_Notification_create users_respond)
    qed
  qed
qed

text \<open>
  C1: the agent-role invariant of the interface. Whatever happens, \<^verbatim>\<open>createAgent\<close>
  either leaves the collection as it is or adds one document, and that document has role
  \<^verbatim>\<open>agent\<close> and status \<^verbatim>\<open>offline\<close>. When the lookup returns and no user has both the
  identifier of the request and the role \<^verbatim>\<open>agent\<close>, each of \<^verbatim>\<open>getAgent\<close>,
  \<^verbatim>\<open>updateAgent\<close> and \<^verbatim>\<open>deleteAgent\<close> answers 404 \<^verbatim>\<open>Agent not found\<close> and does
  nothing else; and on every run these three handlers leave every document whose role is
  not \<^verbatim>\<open>agent\<close> as it is, and keep the size of the collection. \<^verbatim>\<open>toggleAgentStatus\<close>
  looks the user up by the identifier alone: when the lookup returns, a user with the
  identifier exists and the users with it do not have the role \<^verbatim>\<open>agent\<close>, it answers
  400 \<^verbatim>\<open>User is not an agent\<close> and does nothing else.
\<close>

theorem agent_role_invariant:
  "(users (snd (createAgent env req w)) = users w
     \<or> (\<exists>u. users (snd (createAgent env req w)) = users w @ [u]
            \<and> role u = ''agent'' \<and> status u = ''offline''))
   \<and> (dbFault env FindOne = None
        \<and> (\<forall>u\<in>set (users w). uid u = params_id req \<longrightarrow> role u \<noteq> ''agent'') \<longrightarrow>
       list_all
         (\<lambda>handler. handler env req w =
            (Inr (), w\<lparr>sent := sent w @
               [\<lparr>statusCode = 404,
                 payload = JObj [(''success'', JBool False),
                                 (''message'', JStr ''Agent not found'')]\<rparr>]\<rparr>))
         [getAgent, updateAgent, deleteAgent])
   \<and> list_all
        (\<lambda>handler. length (users (snd (handler env req w))) = length (users w)
           \<and> (\<forall>j<length (users w). role (users w ! j) \<noteq> ''agent'' \<longrightarrow>
                 users (snd (handler env req w)) ! j = users w ! j))
        [getAgent, updateAgent, deleteAgent]
   \<and> (dbFault env FindById = None
        \<and> (\<exists>u\<in>set (users w). uid u = params_id req)
        \<and> (\<forall>u\<in>set (users w). uid u = params_id req \<longrightarrow> role u \<noteq> ''agent'') \<longrightarrow>
       toggleAgentStatus env req w =
         (Inr (), w\<lparr>sent := sent w @
            [\<lparr>statusCode = 400,
              payload = JObj [(''success'', JBool False),
                              (''message'', JStr ''User is not an agent'')]\<rparr>]\<rparr>))"
proof (intro conjI impI)
  show "users (snd (createAgent env req w)) = users w
     \<or> (\<exists>u. users (snd (createAgent env req w)) = users w @ [u]
            \<and> role u = ''agent'' \<and> status u = ''offline'')"
    by (rule createAgent_users)
next
  assume a: "dbFault env FindOne = None
        \<and> (\<forall>u\<in>set (users w). uid u = params_id req \<longrightarrow> role u \<noteq> ''agent'')"
  then have n: "findFirst (matches env [Id_eq (params_id req), Role_eq ''agent'']) (users w) = None"
    by (auto simp: findFirst_None matches_def)
  from a have f: "User_findOne env [Id_eq (params_id req), Role_eq ''agent''] w = (Inr None, w)"
    by (simp add: User_findOne_ok n)
  show "list_all
         (\<lambda>handler. handler env req w =
            (Inr (), w\<lparr>sent := sent w @
               [\<lparr>statusCode = 404,
                 payload = JObj [(''success'', JBool False),
                                 (''message'', JStr ''Agent not found'')]\<rparr>]\<rparr>))
         [getAgent, updateAgent, deleteAgent]"
    by (simp add: getAgent_def updateAgent_def deleteAgent_def io_defs f respond_def
          agentNotFound_def)
next
  have g: "length (users (snd (getAgent env req w))) = length (users w)
           \<and> (\<forall>j<length (users w). role (users w ! j) \<noteq> ''agent'' \<longrightarrow>
                 users (snd (getAgent env req w)) ! j = users w ! j)"
    by (simp add: getAgent_users)
  have u: "length (users (snd (updateAgent env req w))) = length (users w)
           \<and> (\<forall>j<length (users w). role (users w ! j) \<noteq> ''agent'' \<longrightarrow>
                 users (snd (updateAgent env req w)) ! j = users w ! j)"
    using updateAgent_users[of env req w] found_agent_frame by fastforce
  have d: "length (users (snd (deleteAgent env req w))) = length (users w)
           \<and> (\<forall>j<length (users w). role (users w ! j) \<noteq> ''agent'' \<longrightarrow>
                 users (snd (deleteAgent env req w)) ! j = users w ! j)"
    using deleteAgent_users[of env req w] found_agent_frame by fastforce
  show "list_all
        (\<lambda>handler. length (users (snd (handler env req w))) = length (users w)
           \<and> (\<forall>j<length (users w). role (users w ! j) \<noteq> ''agent'' \<longrightarrow>
                 users (snd (handler env req w)) ! j = users w ! j))
        [getAgent, updateAgent, deleteAgent]"
    unfolding list_all_Cons_iff list_all_Nil_iff by (intro conjI TrueI g u d)
next
  assume a: "dbFault env FindById = None
        \<and> (\<exists>u\<in>set (users w). uid u = params_id req)
        \<and> (\<forall>u\<in>set (users w). uid u = params_id req \<longrightarrow> role u \<noteq> ''agent'')"
  then have "findFirst (\<lambda>u. uid u = params_id req) (users w) \<noteq> None"
    by (simp add: findFirst_None)
  then obtain i a' where f: "findFirst (\<lambda>u. uid u = params_id req) (users w) = Some (i, a')"
    by auto
  from findFirst_Some[OF f] have "a' \<in> set (users w)" "uid a' = params_id req"
    by auto
  with a have "role a' \<noteq> ''agent''" by blast
  with a f show "toggleAgentStatus env req w =
         (Inr (), w\<lparr>sent := sent w @
            [\<lparr>statusCode = 400,
              payload = JObj [(''success'', JBool False),
                              (''message'', JStr ''User is not an agent'')]\<rparr>]\<rparr>)"
    by (simp add: toggleAgentStatus_def User_findById_def dbCall_def io_defs respond_def)
qed

theorem agent_role_invariant_witness:
  "(\<exists>u. users (snd (createAgent env0 createReq world0)) = users world0 @ [u]
            \<and> role u = ''agent'' \<and> status u = ''offline'')
   \<and> dbFault env0 FindOne = None \<and> dbFault env0 FindById = None
   \<and> bob \<in> set (users world0) \<and> uid bob = params_id bobReq \<and> role bob \<noteq> ''agent''
   \<and> getAgent env0 bobReq world0 =
        (Inr (), world0\<lparr>sent := [\<lparr>statusCode = 404,
                 payload = JObj [(''success'', JBool False),
                                 (''message'', JStr ''Agent not found'')]\<rparr>]\<rparr>)
   \<and> updateAgent env0 bobReq world0 =
        (Inr (), world0\<lparr>sent := [\<lparr>statusCode = 404,
                 payload = JObj [(''success'', JBool False),
                                 (''message'', JStr ''Agent not found'')]\<rparr>]\<rparr>)
   \<and> deleteAgent env0 bobReq world0 =
        (Inr (), world0\<lparr>sent := [\<lparr>statusCode = 404,
                 payload = JObj [(''success'', JBool False),
                                 (''message'', JStr ''Agent not found'')]\<rparr>]\<rparr>)
   \<and> toggleAgentStatus env0 bobReq world0 =
        (Inr (), world0\<lparr>sent := [\<lparr>statusCode = 400,
                 payload = JObj [(''success'', JBool False),
                                 (''message'', JStr ''User is not an agent'')]\<rparr>]\<rparr>)
   \<and> users (snd (deleteAgent env0 aliceReq world0)) ! 1 = bob"
proof -
  note inst = agent_role_invariant[of env0 bobReq world0]
  have h: "dbFault env0 FindOne = None" "dbFault env0 FindById = None"
    "bob \<in> set (users world0)" "uid bob = params_id bobReq" "role bob \<noteq> ''agent''"
    "\<forall>u\<in>set (users world0). uid u = params_id bobReq \<longrightarrow> role u \<noteq> ''agent''"
    "\<exists>u\<in>set (users world0). uid u = params_id bobReq"
    by (simp_all add: ex_defs bobReq_def)
  have s: "sent world0 = []" by (simp add: world0_def)
  from inst[THEN conjunct2, THEN conjunct1] h
  have nf: "list_all
         (\<lambda>handler. handler env0 bobReq world0 =
            (Inr (), world0\<lparr>sent := sent world0 @
               [\<lparr>statusCode = 404,
                 payload = JObj [(''success'', JBool False),
                                 (''message'', JStr ''Agent not found'')]\<rparr>]\<rparr>))
         [getAgent, updateAgent, deleteAgent]"
    by blast
  from inst[THEN conjunct2, THEN conjunct2, THEN conjunct2] h
  have tg: "toggleAgentStatus env0 bobReq world0 =
         (Inr (), world0\<lparr>sent := sent world0 @
            [\<lparr>statusCode = 400,
              payload = JObj [(''success'', JBool False),
                              (''message'', JStr ''User is not an agent'')]\<rparr>]\<rparr>)"
    by blast
  from agent_role_invariant[of env0 aliceReq world0, THEN conjunct2, THEN conjunct2,
      THEN conjunct1]
  have "\<forall>j<length (users world0). role (users world0 ! j) \<noteq> ''agent'' \<longrightarrow>
          users (snd (deleteAgent env0 aliceReq world0)) ! j = users world0 ! j"
    by simp
  then have "1 < length (users world0) \<longrightarrow> role (users world0 ! 1) \<noteq> ''agent'' \<longrightarrow>
          users (snd (deleteAgent env0 aliceReq world0)) ! 1 = users world0 ! 1"
    by blast
  then have fr: "users (snd (deleteAgent env0 aliceReq world0)) ! 1 = bob"
    by (simp add: world0_def bob_def)
  have v: "createAgent env0 createReq world0 =
           tryCatch (createAgentStore env0 (body createReq))
             (\<lambda>error. respond 500 (serverError (orStr (message error) ''Server error'')))
             world0"
    by (rule createAgent_validated)
       (simp_all add: ex_defs truthy_def normalizedPhone_def toStr_def digitsOnly_def
          isDigit_def)
  have "dbFault env0 Create = None" "logActivityFault env0 = None"
    by (simp_all add: env0_def)
  from createAgentStore_ok[OF this, of "body createReq" world0] v
  have "users (snd (createAgent env0 createReq world0)) \<noteq> users world0"
    by (auto simp: tryCatch_def)
  with agent_role_invariant[of env0 createReq world0, THEN conjunct1]
  have cr: "\<exists>u. users (snd (createAgent env0 createReq world0)) = users world0 @ [u]
            \<and> role u = ''agent'' \<and> status u = ''offline''"
    by blast
  from nf tg show ?thesis
    unfolding list_all_Cons_iff list_all_Nil_iff s append_Nil
    using cr h(1-5) fr
    by blast
qed

section \<open>deleteAgent is a soft delete\<close>

lemma preSave_unmodified:
  "password u = password old \<Longrightarrow> phone u = phone old \<Longrightarrow> preSave env (Some old) u = u"
  by (simp add: preSave_def)

lemma findFirst_update:
  "findFirst P xs = Some (i, a) \<Longrightarrow> P b \<Longrightarrow> findFirst P (xs[i := b]) = Some (i, b)"
proof (induction xs arbitrary: i)
  case Nil
  then show ?case by simp
next
  case (Cons x xs)
  show ?case
  proof (cases "P x")
    case True
    with Cons.prems show ?thesis by simp
  next
    case False
    with Cons.prems obtain k where k: "findFirst P xs = Some (k, a)" "i = Suc k"
      by (auto split: option.splits)
    from Cons.IH[OF k(1) Cons.prems(2)] False k(2) show ?thesis by simp
  qed
qed

lemma deleteAgent_cases:
  "deleteAgent env req w =
     (Inr (),
      (case dbFault env FindOne of
         Some m \<Rightarrow> w\<lparr>sent := sent w @ [\<lparr>statusCode = 500, payload = serverError ''Server error''\<rparr>]\<rparr>
       | None \<Rightarrow>
          (case findFirst (matches env [Id_eq (params_id req), Role_eq ''agent'']) (users w) of
             None \<Rightarrow> w\<lparr>sent := sent w @ [\<lparr>statusCode = 404, payload = agentNotFound\<rparr>]\<rparr>
           | Some (i, a) \<Rightarrow>
              if isDeleted a
              then w\<lparr>sent := sent w @
                     [\<lparr>statusCode = 400,
                       payload = JObj [(''message'', JStr ''Agent is already deleted'')]\<rparr>]\<rparr>
              else if dbFault env Save \<noteq> None
              then w\<lparr>sent := sent w @
                     [\<lparr>statusCode = 500, payload = serverError ''Server error''\<rparr>]\<rparr>
              else if dbFault env NotificationCreate \<noteq> None
              then w\<lparr>users := (users w)[i := a\<lparr>isDeleted := True, deletedAt := Some (now env)\<rparr>],
                     sent := sent w @
                       [\<lparr>statusCode = 500, payload = serverError ''Server error''\<rparr>]\<rparr>
              else if logActivityFault env \<noteq> None
              then w\<lparr>users := (users w)[i := a\<lparr>isDeleted := True, deletedAt := Some (now env)\<rparr>],
                     notifications := notifications w @ [deletedNotification req a],
                     sent := sent w @
                       [\<lparr>statusCode = 500, payload = serverError ''Server error''\<rparr>]\<rparr>
              else w\<lparr>users := (users w)[i := a\<lparr>isDeleted := True, deletedAt := Some (now env)\<rparr>],
                     notifications := notifications w @ [deletedNotification req a],
                     activityLog := activityLog w @
                       [\<lparr>a_userId = None,
                         a_message = ''Agent \"'' @ name a @ ''\" has been deleted'',
                         a_status = ''deleted''\<rparr>],
                     sent := sent w @
                       [\<lparr>statusCode = 200,
                         payload = JObj [(''success'', JBool True),
                                         (''message'', JStr ''Agent deleted successfully'')]\<rparr>]\<rparr>)))"
  by (auto simp add: deleteAgent_def User_findOne_def User_save_def Notification_create_def
        logActivity_def dbCall_def withQuery_def io_defs respond_def Let_def
        preSave_unmodified deletedNotification_def
        split: option.splits)

text \<open>
  C7: \<^verbatim>\<open>deleteAgent\<close> is a soft delete. When it answers 200, an agent with the
  identifier of the request was found at some position of the collection and was not
  deleted; afterwards the collection is the same list with, at that position, the same
  document with \<^verbatim>\<open>isDeleted\<close> set to true and \<^verbatim>\<open>deletedAt\<close> set to the current time:
  the document is still there, its other fields and all other documents are as before.
  Calling \<^verbatim>\<open>deleteAgent\<close> again with the same identifier (in any environment whose
  lookup returns) answers 400 \<^verbatim>\<open>Agent is already deleted\<close> and changes nothing but the
  list of responses.
\<close>

theorem deleteAgent_soft_delete:
  "statusCode (last (sent (snd (deleteAgent env req w)))) = 200 \<longrightarrow>
     (\<exists>i agent.
        i < length (users w) \<and> users w ! i = agent
        \<and> uid agent = params_id req \<and> role agent = ''agent'' \<and> \<not> isDeleted agent
        \<and> users (snd (deleteAgent env req w))
             = (users w)[i := agent\<lparr>isDeleted := True, deletedAt := Some (now env)\<rparr>]
        \<and> length (users (snd (deleteAgent env req w))) = length (users w)
        \<and> (\<forall>j<length (users w). j \<noteq> i \<longrightarrow>
              users (snd (deleteAgent env req w)) ! j = users w ! j)
        \<and> (\<forall>env'. dbFault env' FindOne = None \<longrightarrow>
              deleteAgent env' req (snd (deleteAgent env req w)) =
                (Inr (), (snd (deleteAgent env req w))
                   \<lparr>sent := sent (snd (deleteAgent env req w)) @
                      [\<lparr>statusCode = 400,
                        payload = JObj [(''message'', JStr ''Agent is already deleted'')]\<rparr>]\<rparr>)))"
proof
  assume ok: "statusCode (last (sent (snd (deleteAgent env req w)))) = 200"
  let ?q = "[Id_eq (params_id req), Role_eq ''agent'']"
  let ?w1 = "snd (deleteAgent env req w)"
  from ok have f1: "dbFault env FindOne = None"
    by (auto simp: deleteAgent_cases serverError_def split: option.splits)
  from ok f1 obtain i a where f: "findFirst (matches env ?q) (users w) = Some (i, a)"
    by (cases "findFirst (matches env ?q) (users w)")
       (auto simp: deleteAgent_cases agentNotFound_def)
  from ok f1 f have nd: "\<not> isDeleted a"
    and f2: "dbFault env Save = None" "dbFault env NotificationCreate = None"
            "logActivityFault env = None"
    by (auto simp: deleteAgent_cases serverError_def split: if_splits)
  from findFirst_Some[OF f] have i: "i < length (users w)" "users w ! i = a"
    and ma: "uid a = params_id req" "role a = ''agent''"
    by (simp_all add: matches_def)
  let ?a' = "a\<lparr>isDeleted := True, deletedAt := Some (now env)\<rparr>"
  have u1: "users ?w1 = (users w)[i := ?a']"
    using f1 f nd f2 by (simp add: deleteAgent_cases)
  have again: "deleteAgent env' req ?w1 =
                (Inr (), ?w1\<lparr>sent := sent ?w1 @
                      [\<lparr>statusCode = 400,
                        payload = JObj [(''message'', JStr ''Agent is already deleted'')]\<rparr>]\<rparr>)"
    if e': "dbFault env' FindOne = None" for env'
  proof -
    have "findFirst (matches env ?q) ((users w)[i := ?a']) = Some (i, ?a')"
      by (rule findFirst_update[OF f]) (simp add: matches_def ma)
    moreover have "matches env' ?q = matches env ?q"
      by (simp add: matches_def fun_eq_iff)
    ultimately have "findFirst (matches env' ?q) (users ?w1) = Some (i, ?a')"
      by (simp add: u1)
    with e' show ?thesis
      by (subst deleteAgent_cases) simp
  qed
  from i ma nd u1 again show "\<exists>i agent.
        i < length (users w) \<and> users w ! i = agent
        \<and> uid agent = params_id req \<and> role agent = ''agent'' \<and> \<not> isDeleted agent
        \<and> users (snd (deleteAgent env req w))
             = (users w)[i := agent\<lparr>isDeleted := True, deletedAt := Some (now env)\<rparr>]
        \<and> length (users (snd (deleteAgent env req w))) = length (users w)
        \<and> (\<forall>j<length (users w). j \<noteq> i \<longrightarrow>
              users (snd (deleteAgent env req w)) ! j = users w ! j)
        \<and> (\<forall>env'. dbFault env' FindOne = None \<longrightarrow>
              deleteAgent env' req (snd (deleteAgent env req w)) =
                (Inr (), (snd (deleteAgent env req w))
                   \<lparr>sent := sent (snd (deleteAgent env req w)) @
                      [\<lparr>statusCode = 400,
                        payload = JObj [(''message'', JStr ''Agent is already deleted'')]\<rparr>]\<rparr>))"
    by (intro exI[of _ i] exI[of _ a]) simp
qed

theorem deleteAgent_soft_delete_witness:
  "statusCode (last (sent (snd (deleteAgent env0 aliceReq world0)))) = 200
   \<and> dbFault env0 FindOne = None
   \<and> length (users (snd (deleteAgent env0 aliceReq world0))) = 3
   \<and> deleteAgent env0 aliceReq (snd (deleteAgent env0 aliceReq world0)) =
        (Inr (), (snd (deleteAgent env0 aliceReq world0))
           \<lparr>sent := sent (snd (deleteAgent env0 aliceReq world0)) @
              [\<lparr>statusCode = 400,
                payload = JObj [(''message'', JStr ''Agent is already deleted'')]\<rparr>]\<rparr>)"
proof -
  have ok: "statusCode (last (sent (snd (deleteAgent env0 aliceReq world0)))) = 200"
    by (simp add: deleteAgent_cases ex_defs aliceReq_def matches_def)
  have db: "dbFault env0 FindOne = None"
    by (simp add: env0_def)
  have len: "length (users world0) = 3"
    by (simp add: world0_def)
  from deleteAgent_soft_delete[of env0 aliceReq world0] ok db len
  show ?thesis by auto
qed

section \<open>The queries of getAgentsList and exportAgents\<close>

lemma valid_listQuery:
  "list_all (condValid env) (listQuery s) \<longleftrightarrow> (s = [] \<or> regexI env s \<noteq> None)"
  by (simp add: listQuery_def)


lemma matches_listQuery_empty:
  "matches env (listQuery []) u \<longleftrightarrow> role u = ''agent'' \<and> \<not> isDeleted u"
  by (simp add: listQuery_def matches_def)




lemma User_countDocuments_ok:
  "dbFault env CountDocuments = None \<Longrightarrow> list_all (condValid env) q \<Longrightarrow>
   User_countDocuments env q w
     = (Inr (toDouble (int (length (filter (matches env q) (users w))))), w)"
  by (simp add: User_countDocuments_def dbCall_def withQuery_def)

lemma User_find_ok:
  "dbFault env Find = None \<Longrightarrow> list_all (condValid env) q \<Longrightarrow>
   0 \<le> s \<Longrightarrow> s < 2 ^ 53 \<Longrightarrow> \<bar>l\<bar> < 2 ^ 53 \<Longrightarrow>
   User_find env q (Some (Fin s)) (Some (Fin l)) w =
     (Inr (map (\<lambda>u. (u, populate (categories w) u))
             (applyLimit (Some l) (applySkip (Some s)
                (sortByCreatedAtDesc (filter (matches env q) (users w)))))),
      w)"
  by (simp add: User_find_def dbCall_def withQuery_def computed_def skipValid_def)


lemma toDouble_small: "\<bar>n\<bar> < 2 ^ 53 \<Longrightarrow> toDouble n = Fin n"
proof -
  assume "\<bar>n\<bar> < 2 ^ 53"
  then have "nat \<bar>n\<bar> < 2 ^ 53"
    by (simp add: nat_less_iff)
  then show ?thesis
    by (simp add: toDouble_def Let_def)
qed

lemma parseIntOr_nonzero: "parseIntOr v d = Fin n \<Longrightarrow> d \<noteq> 0 \<Longrightarrow> n \<noteq> 0"
  by (auto simp: parseIntOr_def orNum_def split: jsnum.splits if_splits)

lemma getAgentsList_ok:
  assumes db: "dbFault env CountDocuments = None" "dbFault env Find = None"
    and v: "list_all (condValid env) (listQuery (orOpt (search_q (query req)) []))"
    and p: "parseIntOr (page_q (query req)) 1 = Fin p" "\<bar>p - 1\<bar> < 2 ^ 53"
    and l: "parseIntOr (limit_q (query req)) 10 = Fin l" "\<bar>l\<bar> < 2 ^ 53"
    and sk: "0 \<le> (p - 1) * l" "(p - 1) * l < 2 ^ 53"
    and n: "int (length (users w)) < 2 ^ 53"
  shows "getAgentsList env req w =
     (Inr (),
      w\<lparr>sent := sent w @
        [\<lparr>statusCode = 200,
          payload = agentsListJson (Fin p)
            (Fin (ceilDiv (int (length (filter (matches env (listQuery (orOpt (search_q (query req)) [])))
                                    (users w)))) l))
            (Fin (int (length (filter (matches env (listQuery (orOpt (search_q (query req)) [])))
                            (users w)))))
            (Fin l)
            (map (\<lambda>u. (u, populate (categories w) u))
               (applyLimit (Some l)
                  (applySkip (Some ((p - 1) * l))
                     (sortByCreatedAtDesc
                        (filter (matches env (listQuery (orOpt (search_q (query req)) [])))
                           (users w))))))\<rparr>]\<rparr>)"
proof -
  let ?q = "listQuery (orOpt (search_q (query req)) [])"
  have "length (filter (matches env ?q) (users w)) \<le> length (users w)"
    by simp
  with n have t: "int (length (filter (matches env ?q) (users w))) < 2 ^ 53"
    by linarith
  then have c: "toDouble (int (length (filter (matches env ?q) (users w))))
                   = Fin (int (length (filter (matches env ?q) (users w))))"
    by (intro toDouble_small) simp
  from p(2) have m: "minusOne (Fin p) = Fin (p - 1)"
    by (simp add: minusOne_def toDouble_small)
  from sk have s: "times (Fin (p - 1)) (Fin l) = Fin ((p - 1) * l)"
    by (simp add: times_def toDouble_small)
  from l(1) have l0: "l \<noteq> 0"
    by (rule parseIntOr_nonzero) simp
  from t l0 have cn: "ceilNum (Fin (int (length (filter (matches env ?q) (users w))))) (Fin l)
      = Fin (ceilDiv (int (length (filter (matches env ?q) (users w)))) l)"
    by (simp add: ceilNum_def)
  have f: "User_find env ?q (Some (Fin ((p - 1) * l))) (Some (Fin l)) w =
     (Inr (map (\<lambda>u. (u, populate (categories w) u))
             (applyLimit (Some l) (applySkip (Some ((p - 1) * l))
                (sortByCreatedAtDesc (filter (matches env ?q) (users w)))))), w)"
    using db(2) v sk l(2) by (rule User_find_ok)
  show ?thesis
    by (simp add: getAgentsList_def Let_def p(1) l(1) m s io_defs
        User_countDocuments_ok[OF db(1) v] c cn f respond_def)
qed



lemma User_countDocuments_cases:
  "(\<exists>e. User_countDocuments env q w = (Inl e, w))
   \<or> (list_all (condValid env) q
       \<and> User_countDocuments env q w
           = (Inr (toDouble (int (length (filter (matches env q) (users w))))), w))"
  by (simp add: User_countDocuments_def dbCall_def withQuery_def throw_def split: option.splits)

lemma User_find_cases:
  "(\<exists>e. User_find env q s l w = (Inl e, w))
   \<or> (\<exists>s' l'. User_find env q s l w =
         (Inr (map (\<lambda>u. (u, populate (categories w) u))
                 (applyLimit l' (applySkip s'
                    (sortByCreatedAtDesc (filter (matches env q) (users w)))))), w))"
  by (auto simp: User_find_def dbCall_def withQuery_def throw_def
        split: option.splits sum.splits prod.splits)

lemma getAgentsList_cases:
  "getAgentsList env req w =
      (Inr (), w\<lparr>sent := sent w @ [\<lparr>statusCode = 500, payload = serverError ''Server error''\<rparr>]\<rparr>)
   \<or> (list_all (condValid env) (listQuery (orOpt (search_q (query req)) []))
       \<and> (\<exists>s l. getAgentsList env req w =
            (Inr (), w\<lparr>sent := sent w @
               [\<lparr>statusCode = 200,
                 payload = agentsListJson (parseIntOr (page_q (query req)) 1)
                   (ceilNum (toDouble (int (length (filter
                        (matches env (listQuery (orOpt (search_q (query req)) []))) (users w)))))
                      (parseIntOr (limit_q (query req)) 10))
                   (toDouble (int (length (filter
                        (matches env (listQuery (orOpt (search_q (query req)) []))) (users w)))))
                   (parseIntOr (limit_q (query req)) 10)
                   (map (\<lambda>u. (u, populate (categories w) u))
                      (applyLimit l (applySkip s (sortByCreatedAtDesc (filter
                        (matches env (listQuery (orOpt (search_q (query req)) [])))
                        (users w))))))\<rparr>]\<rparr>)))"
proof -
  let ?q = "listQuery (orOpt (search_q (query req)) [])"
  let ?skip = "times (minusOne (parseIntOr (page_q (query req)) 1))
                 (parseIntOr (limit_q (query req)) 10)"
  let ?limit = "parseIntOr (limit_q (query req)) 10"
  from User_countDocuments_cases[of env ?q w] show ?thesis
  proof
    assume "\<exists>e. User_countDocuments env ?q w = (Inl e, w)"
    then obtain e where "User_countDocuments env ?q w = (Inl e, w)" ..
    then show ?thesis
      by (simp add: getAgentsList_def Let_def io_defs respond_def)
  next
    assume c: "list_all (condValid env) ?q
       \<and> User_countDocuments env ?q w
           = (Inr (toDouble (int (length (filter (matches env ?q) (users w))))), w)"
    from User_find_cases[of env ?q "Some ?skip" "Some ?limit" w] show ?thesis
    proof
      assume "\<exists>e. User_find env ?q (Some ?skip) (Some ?limit) w = (Inl e, w)"
      then obtain e where "User_find env ?q (Some ?skip) (Some ?limit) w = (Inl e, w)" ..
      with c show ?thesis
        by (simp add: getAgentsList_def Let_def io_defs respond_def)
    next
      assume "\<exists>s' l'. User_find env ?q (Some ?skip) (Some ?limit) w =
         (Inr (map (\<lambda>u. (u, populate (categories w) u))
                 (applyLimit l' (applySkip s'
                    (sortByCreatedAtDesc (filter (matches env ?q) (users w)))))), w)"
      then obtain s' l' where f: "User_find env ?q (Some ?skip) (Some ?limit) w =
         (Inr (map (\<lambda>u. (u, populate (categories w) u))
                 (applyLimit l' (applySkip s'
                    (sortByCreatedAtDesc (filter (matches env ?q) (users w)))))), w)"
        by blast
      have "getAgentsList env req w =
            (Inr (), w\<lparr>sent := sent w @
               [\<lparr>statusCode = 200,
                 payload = agentsListJson (parseIntOr (page_q (query req)) 1)
                   (ceilNum (toDouble (int (length (filter (matches env ?q) (users w))))) ?limit)
                   (toDouble (int (length (filter (matches env ?q) (users w)))))
                   ?limit
                   (map (\<lambda>u. (u, populate (categories w) u))
                      (applyLimit l' (applySkip s' (sortByCreatedAtDesc (filter
                        (matches env ?q) (users w))))))\<rparr>]\<rparr>)"
        using c f by (simp add: getAgentsList_def Let_def io_defs respond_def)
      with c show ?thesis by blast
    qed
  qed
qed

lemma sortByCreatedAtDesc_sorted:
  "sorted_wrt (\<lambda>a b. createdAt b \<le> createdAt a) (sortByCreatedAtDesc us)"
proof -
  have "sorted (map (\<lambda>u. - int (createdAt u)) (sortByCreatedAtDesc us))"
    by (simp add: sortByCreatedAtDesc_def)
  then show ?thesis
    by (simp add: sorted_wrt_map)
qed



lemma ceilDiv_ceiling:
  "b \<noteq> 0 \<Longrightarrow> real_of_int (ceilDiv a b) = \<lceil>real_of_int a / real_of_int b\<rceil>"
proof -
  have "\<lceil>real_of_int a / real_of_int b\<rceil> = - \<lfloor>- (real_of_int a / real_of_int b)\<rfloor>"
    by (simp add: ceiling_def)
  also have "- (real_of_int a / real_of_int b) = real_of_int (- a) / real_of_int b"
    by simp
  also have "\<lfloor>real_of_int (- a) / real_of_int b\<rfloor> = (- a) div b"
    by (rule floor_divide_of_int_eq)
  finally show ?thesis by (simp add: ceilDiv_def)
qed





lemma parseIntOr_absent: "parseIntOr None d = Fin d"
  by (simp add: parseIntOr_def orNum_def toStr_def parseInt_def trimStart_def whiteSpaces_def
        startsWith_def hasHexPrefix_def isRadixDigit_def digitVal_def)

lemma world1_agents:
  "filter (matches env0 (listQuery [])) (users world1) = [alice, dave]"
  "sortByCreatedAtDesc [alice, dave] = [dave, alice]"
  "populate (categories world1) alice = [\<lparr>cid = ''c1'', cname = ''Support''\<rparr>]"
  "populate (categories world1) dave = []"
  "sent world1 = []"
  "int (length (users world1)) < 2 ^ 53"
  by (simp_all add: matches_listQuery_empty world1_def ex_defs dave_def sortByCreatedAtDesc_def
        populate_def List.map_filter_def)





lemma ceilDiv_eq_ceiling:
  "b \<noteq> 0 \<Longrightarrow> ceilDiv a b = \<lceil>real_of_int a / real_of_int b\<rceil>"
  using ceilDiv_ceiling[of b a] by simp

lemma parseIntOr_cases:
  "parseIntOr None d = Fin d"
  "parseInt s = NaN \<Longrightarrow> parseIntOr (Some s) d = Fin d"
  "parseInt s = Fin 0 \<Longrightarrow> parseIntOr (Some s) d = Fin d"
  "parseInt s = Fin n \<Longrightarrow> n \<noteq> 0 \<Longrightarrow> parseIntOr (Some s) d = Fin n"
  by (simp_all add: parseIntOr_absent) (simp_all add: parseIntOr_def orNum_def toStr_def)

lemma field_pagination:
  "field ''pagination'' (agentsListJson (Fin p) (Fin tp) (Fin t) (Fin l) ags) =
     JObj [(''currentPage'', JNum p), (''totalPages'', JNum tp), (''totalAgents'', JNum t),
           (''hasNextPage'', JBool (p < tp)), (''hasPrevPage'', JBool (p > 1)),
           (''limit'', JNum l)]"
  by (simp add: agentsListJson_def jnum_def jboolOpt_def ltNum_def)

text \<open>
  C3, as the code has it: the pagination of \<^verbatim>\<open>getAgentsList\<close> for a page and a limit
  that are at least 1. The page and the limit are the values of \<^verbatim>\<open>parseInt(...) || 1\<close>
  and \<^verbatim>\<open>parseInt(...) || 10\<close>: the default when the parameter is absent, when
  \<^verbatim>\<open>parseInt\<close> reads no number at the start of its value (NaN) or when it reads 0, and
  the number read otherwise. For a request whose search string is empty or a regular
  expression and whose page \<open>p\<close> and limit \<open>l\<close> are at least 1, with \<open>l\<close> and
  \<open>(p - 1) * l\<close> below \<open>2 ^ 53\<close> (so that the arithmetic of the handler is exact), the
  database calls returning and the collection holding fewer than \<open>2 ^ 53\<close> users: the
  handler answers 200; the agents returned are
  the matching users sorted by \<^verbatim>\<open>createdAt\<close> descending, without the first
  \<open>(p - 1) * l\<close> and cut after \<open>l\<close>, so they are at most \<open>l\<close> and sorted;
  \<^verbatim>\<open>currentPage\<close> is \<open>p\<close>, \<^verbatim>\<open>totalPages\<close> is the ceiling of \<open>totalAgents / l\<close>,
  \<^verbatim>\<open>hasNextPage\<close> is \<open>p < totalPages\<close> and \<^verbatim>\<open>hasPrevPage\<close> is \<open>p > 1\<close>.
\<close>

theorem getAgentsList_pagination:
  "(let search = orOpt (search_q (query req)) [];
        matched = filter (matches env (listQuery search)) (users w);
        total = int (length matched);
        page = take (nat l) (drop (nat ((p - 1) * l)) (sortByCreatedAtDesc matched));
        pagination = field ''pagination''
                       (payload (last (sent (snd (getAgentsList env req w)))))
    in parseIntOr (page_q (query req)) 1 = Fin p \<and> parseIntOr (limit_q (query req)) 10 = Fin l
         \<and> 1 \<le> p \<and> 1 \<le> l \<and> l < 2 ^ 53 \<and> (p - 1) * l < 2 ^ 53
         \<and> (search = [] \<or> regexI env search \<noteq> None)
         \<and> dbFault env CountDocuments = None \<and> dbFault env Find = None
         \<and> int (length (users w)) < 2 ^ 53 \<longrightarrow>
       getAgentsList env req w =
         (Inr (), w\<lparr>sent := sent w @
            [\<lparr>statusCode = 200,
              payload = agentsListJson (Fin p) (Fin (ceilDiv total l)) (Fin total) (Fin l)
                          (map (\<lambda>u. (u, populate (categories w) u)) page)\<rparr>]\<rparr>)
       \<and> int (length page) \<le> l
       \<and> sorted_wrt (\<lambda>a b. createdAt b \<le> createdAt a) page
       \<and> field ''currentPage'' pagination = JNum p
       \<and> field ''totalAgents'' pagination = JNum total
       \<and> field ''totalPages'' pagination = JNum \<lceil>real_of_int total / real_of_int l\<rceil>
       \<and> field ''hasNextPage'' pagination = JBool (p < \<lceil>real_of_int total / real_of_int l\<rceil>)
       \<and> field ''hasPrevPage'' pagination = JBool (p > 1))
   \<and> parseIntOr None d = Fin d
   \<and> (parseInt s = NaN \<longrightarrow> parseIntOr (Some s) d = Fin d)
   \<and> (parseInt s = Fin 0 \<longrightarrow> parseIntOr (Some s) d = Fin d)
   \<and> (parseInt s = Fin n \<and> n \<noteq> 0 \<longrightarrow> parseIntOr (Some s) d = Fin n)"
proof -
  let ?search = "orOpt (search_q (query req)) []"
  let ?matched = "filter (matches env (listQuery ?search)) (users w)"
  let ?page = "take (nat l) (drop (nat ((p - 1) * l)) (sortByCreatedAtDesc ?matched))"
  let ?tp = "ceilDiv (int (length ?matched)) l"
  have main: "getAgentsList env req w =
         (Inr (), w\<lparr>sent := sent w @
            [\<lparr>statusCode = 200,
              payload = agentsListJson (Fin p) (Fin ?tp) (Fin (int (length ?matched))) (Fin l)
                          (map (\<lambda>u. (u, populate (categories w) u)) ?page)\<rparr>]\<rparr>)
       \<and> int (length ?page) \<le> l
       \<and> sorted_wrt (\<lambda>a b. createdAt b \<le> createdAt a) ?page
       \<and> field ''currentPage'' (field ''pagination''
             (payload (last (sent (snd (getAgentsList env req w)))))) = JNum p
       \<and> field ''totalAgents'' (field ''pagination''
             (payload (last (sent (snd (getAgentsList env req w))))))
           = JNum (int (length ?matched))
       \<and> field ''totalPages'' (field ''pagination''
             (payload (last (sent (snd (getAgentsList env req w))))))
           = JNum \<lceil>real_of_int (int (length ?matched)) / real_of_int l\<rceil>
       \<and> field ''hasNextPage'' (field ''pagination''
             (payload (last (sent (snd (getAgentsList env req w))))))
           = JBool (p < \<lceil>real_of_int (int (length ?matched)) / real_of_int l\<rceil>)
       \<and> field ''hasPrevPage'' (field ''pagination''
             (payload (last (sent (snd (getAgentsList env req w)))))) = JBool (p > 1)"
    if a: "parseIntOr (page_q (query req)) 1 = Fin p \<and> parseIntOr (limit_q (query req)) 10 = Fin l
         \<and> 1 \<le> p \<and> 1 \<le> l \<and> l < 2 ^ 53 \<and> (p - 1) * l < 2 ^ 53
         \<and> (?search = [] \<or> regexI env ?search \<noteq> None)
         \<and> dbFault env CountDocuments = None \<and> dbFault env Find = None
         \<and> int (length (users w)) < 2 ^ 53"
  proof -
    from a have sk: "0 \<le> (p - 1) * l" by simp
    from a have "(p - 1) * 1 \<le> (p - 1) * l"
      by (intro mult_left_mono) simp_all
    with a have pb: "\<bar>p - 1\<bar> < 2 ^ 53"
      by simp
    from a have v: "list_all (condValid env) (listQuery ?search)"
      by (simp add: valid_listQuery)
    from a have lim: "applyLimit (Some l) xs = take (nat l) xs" for xs :: "user list"
      by (simp add: applyLimit_def)
    have r: "getAgentsList env req w =
         (Inr (), w\<lparr>sent := sent w @
            [\<lparr>statusCode = 200,
              payload = agentsListJson (Fin p) (Fin ?tp) (Fin (int (length ?matched))) (Fin l)
                          (map (\<lambda>u. (u, populate (categories w) u)) ?page)\<rparr>]\<rparr>)"
      using getAgentsList_ok[where env = env and req = req and w = w and p = p and l = l]
        a v sk pb
      by (simp add: lim applySkip_def)
    from a have c: "?tp = \<lceil>real_of_int (int (length ?matched)) / real_of_int l\<rceil>"
      by (intro ceilDiv_eq_ceiling) simp
    have "length ?page \<le> nat l"
      by simp
    with a have len: "int (length ?page) \<le> l"
      by linarith
    have srt: "sorted_wrt (\<lambda>a b. createdAt b \<le> createdAt a) ?page"
      by (intro sorted_wrt_take sorted_wrt_drop sortByCreatedAtDesc_sorted)
    have fl: "field ''pagination'' (payload (last (sent (snd (getAgentsList env req w)))))
         = JObj [(''currentPage'', JNum p), (''totalPages'', JNum ?tp),
                 (''totalAgents'', JNum (int (length ?matched))),
                 (''hasNextPage'', JBool (p < ?tp)), (''hasPrevPage'', JBool (p > 1)),
                 (''limit'', JNum l)]"
      by (simp add: r field_pagination)
    show ?thesis
      unfolding fl c[symmetric]
      by (intro conjI r len srt) simp_all
  qed
  show ?thesis
    unfolding Let_def
    by (intro conjI impI main parseIntOr_cases) simp_all
qed

lemma toDouble_examples:
  "toDouble 9007199254740993 = Fin 9007199254740992"
  "toDouble 9007199254740995 = Fin 9007199254740996"
  "toDouble (- 9007199254740993) = Fin (- 9007199254740992)"
  "toDouble (2 ^ 1024) = PosInf"
  by (simp_all add: toDouble_def Let_def bitlen.simps)

lemma parseInt_rounded:
  "parseInt ''9007199254740993'' = Fin 9007199254740992"
  by (simp add: parseInt_def trimStart_def whiteSpaces_def startsWith_def hasHexPrefix_def
        isRadixDigit_def digitVal_def toDouble_def Let_def bitlen.simps)

lemma parseInt_examples:
  "parseInt ''2'' = Fin 2" "parseInt ''1'' = Fin 1" "parseInt ''-5'' = Fin (- 5)"
  "parseInt ''abc'' = NaN" "parseInt ''0'' = Fin 0" "parseInt ''12abc'' = Fin 12"
  by (simp_all add: parseInt_def trimStart_def whiteSpaces_def startsWith_def hasHexPrefix_def
        isRadixDigit_def digitVal_def toDouble_def)

theorem getAgentsList_pagination_witness:
  "parseIntOr (page_q (query (pageReq (Some ''2'') (Some ''1'')))) 1 = Fin 2
   \<and> parseIntOr (limit_q (query (pageReq (Some ''2'') (Some ''1'')))) 10 = Fin 1
   \<and> orOpt (search_q (query (pageReq (Some ''2'') (Some ''1'')))) [] = []
   \<and> dbFault env0 CountDocuments = None \<and> dbFault env0 Find = None
   \<and> int (length (users world1)) < 2 ^ 53
   \<and> getAgentsList env0 (pageReq (Some ''2'') (Some ''1'')) world1 =
        (Inr (), world1\<lparr>sent :=
           [\<lparr>statusCode = 200,
             payload = agentsListJson (Fin 2) (Fin 2) (Fin 2) (Fin 1)
                         [(alice, [\<lparr>cid = ''c1'', cname = ''Support''\<rparr>])]\<rparr>]\<rparr>)
   \<and> parseIntOr (Some ''abc'') 10 = Fin 10
   \<and> parseIntOr (Some ''0'') 10 = Fin 10
   \<and> parseIntOr (Some ''2'') 10 = Fin 2"
proof -
  note inst = getAgentsList_pagination[where req = "pageReq (Some ''2'') (Some ''1'')"
      and p = 2 and l = 1 and env = env0 and w = world1]
  have p: "parseIntOr (page_q (query (pageReq (Some ''2'') (Some ''1'')))) 1 = Fin 2"
    "parseIntOr (limit_q (query (pageReq (Some ''2'') (Some ''1'')))) 10 = Fin 1"
    "orOpt (search_q (query (pageReq (Some ''2'') (Some ''1'')))) [] = []"
    by (simp_all add: pageReq_def parseIntOr_def orNum_def toStr_def parseInt_examples orOpt_def)
  have db: "dbFault env0 CountDocuments = None" "dbFault env0 Find = None"
    by (simp_all add: env0_def)
  have cd: "ceilDiv 2 1 = 2"
    by (simp add: ceilDiv_def)
  have 1: "getAgentsList env0 (pageReq (Some ''2'') (Some ''1'')) world1 =
        (Inr (), world1\<lparr>sent :=
           [\<lparr>statusCode = 200,
             payload = agentsListJson (Fin 2) (Fin 2) (Fin 2) (Fin 1)
                         [(alice, [\<lparr>cid = ''c1'', cname = ''Support''\<rparr>])]\<rparr>]\<rparr>)"
    using inst[THEN conjunct1] db world1_agents(6)
    by (simp add: Let_def p world1_agents cd)
  have 2: "parseIntOr (Some ''abc'') 10 = Fin 10"
    using getAgentsList_pagination[where s = "''abc''" and d = 10, THEN conjunct2,
        THEN conjunct2, THEN conjunct1]
    by (simp add: parseInt_examples)
  have 3: "parseIntOr (Some ''0'') 10 = Fin 10"
    using getAgentsList_pagination[where s = "''0''" and d = 10, THEN conjunct2, THEN conjunct2,
        THEN conjunct2, THEN conjunct1]
    by (simp add: parseInt_examples)
  have 4: "parseIntOr (Some ''2'') 10 = Fin 2"
    using getAgentsList_pagination[where s = "''2''" and d = 10 and n = 2, THEN conjunct2,
        THEN conjunct2, THEN conjunct2, THEN conjunct2]
    by (simp add: parseInt_examples)
  show ?thesis
    by (intro conjI p db world1_agents(6) 1 2 3 4)
qed

text \<open>
  C3 as the specification states it, for every query, fails in three ways. The limit
  \<^verbatim>\<open>-5\<close> is kept by \<^verbatim>\<open>parseInt(...) || 10\<close>, and the handler answers 200 with two
  agents, which is more than the limit (the database takes a negative limit as the limit
  of its absolute value), and with 0 pages. A query with the default page and limit and
  the search string \<^verbatim>\<open>(\<close>, which is no regular expression, is answered 500, with no
  agents and no pagination. And the page \<^verbatim>\<open>12abc\<close>, which is not a number, is not
  replaced by the default: \<^verbatim>\<open>parseInt\<close> reads 12.
\<close>

theorem getAgentsList_pagination_counterexample:
  "parseIntOr (page_q (query (pageReq None (Some ''-5'')))) 1 = Fin 1
   \<and> parseIntOr (limit_q (query (pageReq None (Some ''-5'')))) 10 = Fin (- 5)
   \<and> getAgentsList env0 (pageReq None (Some ''-5'')) world1 =
        (Inr (), world1\<lparr>sent :=
           [\<lparr>statusCode = 200,
             payload = agentsListJson (Fin 1) (Fin 0) (Fin 2) (Fin (- 5))
                         [(dave, []), (alice, [\<lparr>cid = ''c1'', cname = ''Support''\<rparr>])]\<rparr>]\<rparr>)
   \<and> \<not> int (length [(dave, []), (alice, [\<lparr>cid = ''c1'', cname = ''Support''\<rparr>])]) \<le> - 5
   \<and> parseIntOr (page_q (query (searchReq ''(''))) 1 = Fin 1
   \<and> parseIntOr (limit_q (query (searchReq ''(''))) 10 = Fin 10
   \<and> getAgentsList env0 (searchReq ''('') world1 =
        (Inr (), world1\<lparr>sent :=
           [\<lparr>statusCode = 500, payload = serverError ''Server error''\<rparr>]\<rparr>)
   \<and> parseIntOr (page_q (query (pageReq (Some ''12abc'') None))) 1 = Fin 12"
proof -
  have p: "parseIntOr (page_q (query (pageReq None (Some ''-5'')))) 1 = Fin 1"
    "parseIntOr (limit_q (query (pageReq None (Some ''-5'')))) 10 = Fin (- 5)"
    "orOpt (search_q (query (pageReq None (Some ''-5'')))) [] = []"
    "parseIntOr (page_q (query (searchReq ''(''))) 1 = Fin 1"
    "parseIntOr (limit_q (query (searchReq ''(''))) 10 = Fin 10"
    "orOpt (search_q (query (searchReq ''(''))) [] = ''(''"
    "parseIntOr (page_q (query (pageReq (Some ''12abc'') None))) 1 = Fin 12"
    by (simp_all add: pageReq_def searchReq_def parseIntOr_absent orOpt_def orStr_def)
       (simp_all add: parseIntOr_def orNum_def toStr_def parseInt_examples)
  have db: "dbFault env0 CountDocuments = None" "dbFault env0 Find = None"
    by (simp_all add: env0_def)
  have cd: "ceilDiv 2 (- 5) = 0"
    by (simp add: ceilDiv_def)
  have 1: "getAgentsList env0 (pageReq None (Some ''-5'')) world1 =
        (Inr (), world1\<lparr>sent :=
           [\<lparr>statusCode = 200,
             payload = agentsListJson (Fin 1) (Fin 0) (Fin 2) (Fin (- 5))
                         [(dave, []), (alice, [\<lparr>cid = ''c1'', cname = ''Support''\<rparr>])]\<rparr>]\<rparr>)"
    using getAgentsList_ok[where env = env0 and req = "pageReq None (Some ''-5'')"
        and w = world1 and p = 1 and l = "- 5"] db world1_agents(6)
    by (simp add: p valid_listQuery world1_agents cd applyLimit_def applySkip_def)
  have v: "\<not> list_all (condValid env0) (listQuery ''('')"
    by (simp add: valid_listQuery env0_def exampleRegexI_def)
  have "getAgentsList env0 (searchReq ''('') world1 =
        (Inr (), world1\<lparr>sent := sent world1 @
           [\<lparr>statusCode = 500, payload = serverError ''Server error''\<rparr>]\<rparr>)"
    using getAgentsList_cases[of env0 "searchReq ''(''" world1] v
    unfolding p by blast
  then have 2: "getAgentsList env0 (searchReq ''('') world1 =
        (Inr (), world1\<lparr>sent :=
           [\<lparr>statusCode = 500, payload = serverError ''Server error''\<rparr>]\<rparr>)"
    by (simp add: world1_agents(5))
  show ?thesis
    by (intro conjI p(1,2,4,5,7) 1 2) simp
qed

section \<open>The round trip of first and last name\<close>

lemma splitOn_not_Nil: "splitOn c s \<noteq> []"
  by (induction s) (auto split: list.splits)

lemma joinWith_Cons_Cons: "joinWith sep ((x # p) # ps) = x # joinWith sep (p # ps)"
  by (cases ps) simp_all

lemma joinWith_splitOn: "joinWith [c] (splitOn c s) = s"
proof (induction s)
  case Nil
  show ?case by simp
next
  case (Cons x xs)
  obtain p ps where sp: "splitOn c xs = p # ps"
    using splitOn_not_Nil[of c xs] by (cases "splitOn c xs") auto
  with Cons show ?case
    by (simp add: joinWith_Cons_Cons)
qed

lemma splitOn_prefix:
  "c \<notin> set f \<Longrightarrow> splitOn c (f @ c # l) = f # splitOn c l"
  by (induction f) auto

lemma splitOn_none: "c \<notin> set f \<Longrightarrow> splitOn c f = [f]"
  by (induction f) auto

lemma hd_splitOn: "hd (splitOn c s) = takeWhile (\<lambda>x. x \<noteq> c) s"
proof (induction s)
  case Nil
  show ?case by simp
next
  case (Cons x xs)
  obtain p ps where sp: "splitOn c xs = p # ps"
    using splitOn_not_Nil[of c xs] by (cases "splitOn c xs") auto
  with Cons show ?case by simp
qed

lemma tl_splitOn:
  "joinWith [c] (tl (splitOn c s)) = drop 1 (dropWhile (\<lambda>x. x \<noteq> c) s)"
proof (induction s)
  case Nil
  show ?case by simp
next
  case (Cons x xs)
  obtain p ps where sp: "splitOn c xs = p # ps"
    using splitOn_not_Nil[of c xs] by (cases "splitOn c xs") auto
  show ?case
  proof (cases "x = c")
    case True
    then show ?thesis by (simp add: joinWith_splitOn)
  next
    case False
    with Cons sp show ?thesis by simp
  qed
qed

lemma firstNameOf_eq: "firstNameOf n = takeWhile (\<lambda>x. x \<noteq> CHR '' '') n"
proof -
  obtain p ps where sp: "splitOn CHR '' '' n = p # ps"
    using splitOn_not_Nil[of "CHR '' ''" n] by (cases "splitOn CHR '' '' n") auto
  with hd_splitOn[of "CHR '' ''" n] show ?thesis
    by (simp add: firstNameOf_def orStr_def)
qed

lemma lastNameOf_eq: "lastNameOf n = drop 1 (dropWhile (\<lambda>x. x \<noteq> CHR '' '') n)"
  using tl_splitOn[of "CHR '' ''" n]
  by (simp add: lastNameOf_def orStr_def drop_Suc)

lemma stripStart_none:
  "find (\<lambda>p. startsWith p s) ps = None \<Longrightarrow> stripStart ps s = s"
  by (cases s) simp_all

lemma not_beginsWhite:
  "\<not> beginsWhite s \<longleftrightarrow> find (\<lambda>p. startsWith p s) whiteSpaces = None"
  by (auto simp: beginsWhite_def find_None_iff list_ex_iff)

lemma not_endsWhite:
  "\<not> endsWhite s \<longleftrightarrow> find (\<lambda>p. startsWith p (rev s)) (map rev whiteSpaces) = None"
  by (auto simp: endsWhite_def find_None_iff list_ex_iff)

lemma startsWith_across:
  assumes s: "startsWith p (f @ c # l)" and f: "f \<noteq> []" and c: "c \<notin> set (tl p)"
  shows "startsWith p f"
proof (cases "length p \<le> length f")
  case True
  with s show ?thesis by (simp add: startsWith_def)
next
  case False
  with s have "p = f @ take (length p - length f) (c # l)"
    by (simp add: startsWith_def)
  with False obtain r where "p = f @ c # r"
    by (cases "length p - length f") auto
  with f have "c \<in> set (tl p)"
    by (cases f) auto
  with c show ?thesis by simp
qed

lemma whiteSpaces_tails:
  "p \<in> set whiteSpaces \<Longrightarrow> CHR '' '' \<notin> set (tl p)"
  "p \<in> set whiteSpaces \<Longrightarrow> CHR '' '' \<notin> set (tl (rev p))"
  by (auto simp: whiteSpaces_def)

lemma beginsWhite_append:
  assumes "f \<noteq> []" "\<not> beginsWhite f"
  shows "\<not> beginsWhite (f @ CHR '' '' # l)"
  using assms startsWith_across[of _ f "CHR '' ''" l] whiteSpaces_tails(1)
  by (auto simp: beginsWhite_def list_ex_iff)

lemma endsWhite_append:
  assumes "l \<noteq> []" "\<not> endsWhite l"
  shows "\<not> endsWhite (f @ CHR '' '' # l)"
  using assms startsWith_across[of _ "rev l" "CHR '' ''" "rev f"] whiteSpaces_tails(2)
  by (auto simp: endsWhite_def list_ex_iff)

lemma trim_id:
  assumes "\<not> beginsWhite s" "\<not> endsWhite s"
  shows "trim s = s"
  using assms
  by (simp add: trim_def trimStart_def trimEnd_def not_beginsWhite not_endsWhite stripStart_none)

lemma find_space:
  "find (\<lambda>p. startsWith p (CHR '' '' # cs)) (map rev whiteSpaces) = Some '' ''"
  by (simp add: whiteSpaces_def startsWith_def)

lemma trim_trailing_space:
  assumes "f \<noteq> []" "\<not> beginsWhite f" "\<not> endsWhite f"
  shows "trim (f @ '' '') = f"
proof -
  from assms have "\<not> beginsWhite (f @ '' '')"
    by (simp add: beginsWhite_append)
  then have 1: "trimStart (f @ '' '') = f @ '' ''"
    by (simp add: trimStart_def not_beginsWhite stripStart_none)
  from assms have 2: "stripStart (map rev whiteSpaces) (rev f) = rev f"
    by (simp add: not_endsWhite stripStart_none)
  show ?thesis
    by (simp add: trim_def 1 trimEnd_def find_space 2)
qed

lemma names_round_trip:
  assumes f: "f \<noteq> []" "CHR '' '' \<notin> set f" "\<not> beginsWhite f"
    and l: "l = [] \<longrightarrow> \<not> endsWhite f" "l \<noteq> [] \<longrightarrow> \<not> endsWhite l"
  shows "firstNameOf (trim (f @ '' '' @ l)) = f \<and> lastNameOf (trim (f @ '' '' @ l)) = l"
proof (cases "l = []")
  case True
  with f l have t: "trim (f @ '' '') = f"
    by (simp add: trim_trailing_space)
  from f(2) have ns: "\<forall>x\<in>set f. x \<noteq> CHR '' ''" by auto
  then have tw: "takeWhile (\<lambda>x. x \<noteq> CHR '' '') f = f"
    and dw: "dropWhile (\<lambda>x. x \<noteq> CHR '' '') f = []"
    by (simp_all add: takeWhile_eq_all_conv)
  show ?thesis
    unfolding True firstNameOf_eq lastNameOf_eq append_Nil2 t tw dw by simp
next
  case False
  with f l have "trim (f @ '' '' @ l) = f @ '' '' @ l"
    by (intro trim_id) (simp_all add: beginsWhite_append endsWhite_append)
  moreover from f(2) have ns: "\<And>x. x \<in> set f \<Longrightarrow> x \<noteq> CHR '' ''" by auto
  then have "takeWhile (\<lambda>x. x \<noteq> CHR '' '') (f @ '' '' @ l) = f"
    by (simp add: takeWhile_append2)
  moreover from ns have "dropWhile (\<lambda>x. x \<noteq> CHR '' '') (f @ '' '' @ l) = '' '' @ l"
    by (simp add: dropWhile_append2)
  ultimately show ?thesis
    by (simp add: firstNameOf_eq lastNameOf_eq)
qed

lemma findFirst_append_new:
  "\<forall>x\<in>set xs. \<not> P x \<Longrightarrow> P d \<Longrightarrow> findFirst P (xs @ [d]) = Some (length xs, d)"
  by (induction xs) simp_all

text \<open>Creating an agent and then fetching it by the identifier it was given.\<close>

lemma create_then_get:
  assumes db: "dbFault env FindOne = None" "dbFault env Create = None"
      "logActivityFault env = None"
    and v: "\<forall>u\<in>set (users w). email u \<noteq> email_in (body req)"
      "truthy (phone_in (body req)) \<longrightarrow>
         (\<forall>u\<in>set (users w). phone u \<noteq> normalizedPhone (toStr (phone_in (body req))))"
      "truthy (password_in (body req))"
    and fresh: "\<forall>u\<in>set (users w). uid u \<noteq> newObjectId env"
    and get: "dbFault env' FindOne = None" "params_id req' = newObjectId env"
  shows "\<exists>a cs. getAgent env' req' (snd (createAgent env req w)) =
           (Inr (), (snd (createAgent env req w))
              \<lparr>sent := sent (snd (createAgent env req w)) @
                 [\<lparr>statusCode = 200,
                   payload = JObj [(''success'', JBool True),
                                   (''data'', agentView (a, cs))]\<rparr>]\<rparr>)
         \<and> name a = trim (toStr (firstName (body req)) @ '' '' @ toStr (lastName (body req)))"
proof -
  let ?d = "preSave env None
              ((newAgentDoc env (body req))\<lparr>uid := newObjectId env, createdAt := now env\<rparr>)"
  have eq: "createAgent env req w =
           tryCatch (createAgentStore env (body req))
             (\<lambda>error. respond 500 (serverError (orStr (message error) ''Server error''))) w"
    using db(1) v by (rule createAgent_validated)
  from createAgentStore_ok[OF db(2,3), of "body req" w]
  obtain w' where w': "createAgentStore env (body req) w = (Inr (), w')"
    "users w' = users w @ [?d]"
    by blast
  have s: "snd (createAgent env req w) = w'"
    by (simp add: eq tryCatch_def w'(1))
  have d: "uid ?d = newObjectId env" "role ?d = ''agent''"
    "name ?d = trim (toStr (firstName (body req)) @ '' '' @ toStr (lastName (body req)))"
    by (simp_all add: preSave_role_status newAgentDoc_def)
  have "findFirst (matches env' [Id_eq (params_id req'), Role_eq ''agent'']) (users w @ [?d])
          = Some (length (users w), ?d)"
    using fresh get(2) d(1,2) by (intro findFirst_append_new) (simp_all add: matches_def)
  then have "getAgent env' req' w' =
           (Inr (), w'\<lparr>sent := sent w' @
                 [\<lparr>statusCode = 200,
                   payload = JObj [(''success'', JBool True),
                                   (''data'', agentView (?d, populate (categories w') ?d))]\<rparr>]\<rparr>)"
    by (simp add: getAgent_def io_defs User_findOne_ok[OF get(1)] w'(2) respond_def)
  with d(3) show ?thesis
    unfolding s by blast
qed

lemma agentView_names:
  "field ''firstName'' (agentView (a, cs)) = JStr (firstNameOf (name a))"
  "field ''lastName'' (agentView (a, cs)) = JStr (lastNameOf (name a))"
  by (simp_all add: agentView_def)

lemma trim_examples:
  "trim (''Mary Ann'' @ '' '' @ ''Lee'') = ''Mary Ann Lee''"
  "trim (''Dana'' @ '' '' @ ''Reed '') = ''Dana Reed''"
  "trim (''Dana'' @ '' '' @ (''Reed'' @ [CHR 0xC2, CHR 0xA0])) = ''Dana Reed''"
  by (simp_all add: trim_def trimStart_def trimEnd_def whiteSpaces_def startsWith_def)

text \<open>
  C9, as the code has it. \<^verbatim>\<open>createAgent\<close> stores the trimmed concatenation of first
  name, a space and last name, and \<^verbatim>\<open>getAgent\<close> (like the other views) gives back what
  is before the first space of the name as first name and what is after it as last name.
  So the pair comes back as it was sent when the first name is non-empty, contains no
  space and does not begin with white space, and the last name does not end with white
  space (nor the first name, when the last name is empty), white space being what
  \<^verbatim>\<open>trim\<close> strips: for such a request that passes the validation, with the database
  and the logger answering and a fresh identifier, fetching the created agent answers 200
  with the original first and last name. A first name with a space in it does not come
  back: \<^verbatim>\<open>Mary Ann\<close> and \<^verbatim>\<open>Lee\<close> come back as \<^verbatim>\<open>Mary\<close> and \<^verbatim>\<open>Ann Lee\<close>.
\<close>

theorem name_round_trip:
  "(firstName (body req) = Some f \<and> lastName (body req) = Some l
      \<and> f \<noteq> [] \<and> CHR '' '' \<notin> set f \<and> \<not> beginsWhite f
      \<and> (l = [] \<longrightarrow> \<not> endsWhite f) \<and> (l \<noteq> [] \<longrightarrow> \<not> endsWhite l)
      \<and> dbFault env FindOne = None \<and> dbFault env Create = None \<and> logActivityFault env = None
      \<and> (\<forall>u\<in>set (users w). email u \<noteq> email_in (body req))
      \<and> (truthy (phone_in (body req)) \<longrightarrow>
            (\<forall>u\<in>set (users w). phone u \<noteq> normalizedPhone (toStr (phone_in (body req)))))
      \<and> truthy (password_in (body req))
      \<and> (\<forall>u\<in>set (users w). uid u \<noteq> newObjectId env)
      \<and> dbFault env' FindOne = None \<and> params_id req' = newObjectId env \<longrightarrow>
    (\<exists>a cs. getAgent env' req' (snd (createAgent env req w)) =
           (Inr (), (snd (createAgent env req w))
              \<lparr>sent := sent (snd (createAgent env req w)) @
                 [\<lparr>statusCode = 200,
                   payload = JObj [(''success'', JBool True),
                                   (''data'', agentView (a, cs))]\<rparr>]\<rparr>)
         \<and> field ''firstName'' (agentView (a, cs)) = JStr f
         \<and> field ''lastName'' (agentView (a, cs)) = JStr l))
   \<and> firstNameOf n = takeWhile (\<lambda>c. c \<noteq> CHR '' '') n
   \<and> lastNameOf n = drop 1 (dropWhile (\<lambda>c. c \<noteq> CHR '' '') n)
   \<and> firstNameOf (trim (''Mary Ann'' @ '' '' @ ''Lee'')) = ''Mary''
   \<and> lastNameOf (trim (''Mary Ann'' @ '' '' @ ''Lee'')) = ''Ann Lee''"
proof (intro conjI impI)
  assume a: "firstName (body req) = Some f \<and> lastName (body req) = Some l
      \<and> f \<noteq> [] \<and> CHR '' '' \<notin> set f \<and> \<not> beginsWhite f
      \<and> (l = [] \<longrightarrow> \<not> endsWhite f) \<and> (l \<noteq> [] \<longrightarrow> \<not> endsWhite l)
      \<and> dbFault env FindOne = None \<and> dbFault env Create = None \<and> logActivityFault env = None
      \<and> (\<forall>u\<in>set (users w). email u \<noteq> email_in (body req))
      \<and> (truthy (phone_in (body req)) \<longrightarrow>
            (\<forall>u\<in>set (users w). phone u \<noteq> normalizedPhone (toStr (phone_in (body req)))))
      \<and> truthy (password_in (body req))
      \<and> (\<forall>u\<in>set (users w). uid u \<noteq> newObjectId env)
      \<and> dbFault env' FindOne = None \<and> params_id req' = newObjectId env"
  then obtain a' cs where g: "getAgent env' req' (snd (createAgent env req w)) =
           (Inr (), (snd (createAgent env req w))
              \<lparr>sent := sent (snd (createAgent env req w)) @
                 [\<lparr>statusCode = 200,
                   payload = JObj [(''success'', JBool True),
                                   (''data'', agentView (a', cs))]\<rparr>]\<rparr>)"
    and n: "name a' = trim (toStr (firstName (body req)) @ '' '' @ toStr (lastName (body req)))"
    using create_then_get[of env w req env' req'] by blast
  from a have "firstNameOf (trim (f @ '' '' @ l)) = f \<and> lastNameOf (trim (f @ '' '' @ l)) = l"
    by (intro names_round_trip) simp_all
  with a n have "firstNameOf (name a') = f" "lastNameOf (name a') = l"
    by (simp_all add: toStr_def)
  with g show "\<exists>a cs. getAgent env' req' (snd (createAgent env req w)) =
           (Inr (), (snd (createAgent env req w))
              \<lparr>sent := sent (snd (createAgent env req w)) @
                 [\<lparr>statusCode = 200,
                   payload = JObj [(''success'', JBool True),
                                   (''data'', agentView (a, cs))]\<rparr>]\<rparr>)
         \<and> field ''firstName'' (agentView (a, cs)) = JStr f
         \<and> field ''lastName'' (agentView (a, cs)) = JStr l"
    by (intro exI[of _ a'] exI[of _ cs]) (simp add: agentView_names)
next
  show "firstNameOf n = takeWhile (\<lambda>c. c \<noteq> CHR '' '') n"
    by (rule firstNameOf_eq)
  show "lastNameOf n = drop 1 (dropWhile (\<lambda>c. c \<noteq> CHR '' '') n)"
    by (rule lastNameOf_eq)
  show "firstNameOf (trim (''Mary Ann'' @ '' '' @ ''Lee'')) = ''Mary''"
    unfolding trim_examples by (simp add: firstNameOf_eq)
  show "lastNameOf (trim (''Mary Ann'' @ '' '' @ ''Lee'')) = ''Ann Lee''"
    unfolding trim_examples by (simp add: lastNameOf_eq)
qed

lemma createReq_valid:
  "dbFault env0 FindOne = None" "dbFault env0 Create = None" "logActivityFault env0 = None"
  "\<forall>u\<in>set (users world0). email u \<noteq> email_in (body createReq)"
  "truthy (phone_in (body createReq)) \<longrightarrow>
     (\<forall>u\<in>set (users world0). phone u \<noteq> normalizedPhone (toStr (phone_in (body createReq))))"
  "truthy (password_in (body createReq))"
  "\<forall>u\<in>set (users world0). uid u \<noteq> newObjectId env0"
  "params_id newAgentReq = newObjectId env0"
  by (simp_all add: ex_defs newAgentReq_def truthy_def normalizedPhone_def toStr_def
        digitsOnly_examples)

theorem name_round_trip_witness:
  "firstName (body createReq) = Some ''Dana'' \<and> lastName (body createReq) = Some ''Reed''
   \<and> \<not> beginsWhite ''Dana'' \<and> \<not> endsWhite ''Reed''
   \<and> (\<exists>a cs. getAgent env0 newAgentReq (snd (createAgent env0 createReq world0)) =
           (Inr (), (snd (createAgent env0 createReq world0))
              \<lparr>sent := sent (snd (createAgent env0 createReq world0)) @
                 [\<lparr>statusCode = 200,
                   payload = JObj [(''success'', JBool True),
                                   (''data'', agentView (a, cs))]\<rparr>]\<rparr>)
         \<and> field ''firstName'' (agentView (a, cs)) = JStr ''Dana''
         \<and> field ''lastName'' (agentView (a, cs)) = JStr ''Reed'')"
proof -
  have n: "firstName (body createReq) = Some ''Dana''" "lastName (body createReq) = Some ''Reed''"
    by (simp_all add: createReq_def)
  have c: "''Dana'' \<noteq> []" "CHR '' '' \<notin> set ''Dana''" "\<not> beginsWhite ''Dana''"
    "''Reed'' = [] \<longrightarrow> \<not> endsWhite ''Dana''" "''Reed'' \<noteq> [] \<longrightarrow> \<not> endsWhite ''Reed''"
    by (simp_all add: beginsWhite_def endsWhite_def whiteSpaces_def startsWith_def)
  from c have e: "\<not> endsWhite ''Reed''"
    by simp
  from name_round_trip[of createReq "''Dana''" "''Reed''" env0 world0 env0 newAgentReq,
      THEN conjunct1] n c createReq_valid
  have "\<exists>a cs. getAgent env0 newAgentReq (snd (createAgent env0 createReq world0)) =
           (Inr (), (snd (createAgent env0 createReq world0))
              \<lparr>sent := sent (snd (createAgent env0 createReq world0)) @
                 [\<lparr>statusCode = 200,
                   payload = JObj [(''success'', JBool True),
                                   (''data'', agentView (a, cs))]\<rparr>]\<rparr>)
         \<and> field ''firstName'' (agentView (a, cs)) = JStr ''Dana''
         \<and> field ''lastName'' (agentView (a, cs)) = JStr ''Reed''"
    by blast
  with n c(3) e show ?thesis
    by (intro conjI)
qed

text \<open>Creating the agent of \<open>createReq\<close> with another last name, and fetching it.\<close>

lemma created_and_fetched:
  assumes b: "body r = (body createReq)\<lparr>lastName := Some x\<rparr>"
  shows "map statusCode (sent (snd (createAgent env0 r world0))) = [201]"
    and "map statusCode (sent (snd (getAgent env0 newAgentReq
                                    (snd (createAgent env0 r world0))))) = [201, 200]"
    and "field ''firstName'' (field ''data'' (payload (last (sent (snd
           (getAgent env0 newAgentReq (snd (createAgent env0 r world0))))))))
         = JStr (firstNameOf (trim (''Dana'' @ '' '' @ x)))"
    and "field ''lastName'' (field ''data'' (payload (last (sent (snd
           (getAgent env0 newAgentReq (snd (createAgent env0 r world0))))))))
         = JStr (lastNameOf (trim (''Dana'' @ '' '' @ x)))"
proof -
  have n: "firstName (body r) = Some ''Dana''" "lastName (body r) = Some x"
    by (simp_all add: b createReq_def)
  have v: "\<forall>u\<in>set (users world0). email u \<noteq> email_in (body r)"
    "truthy (phone_in (body r)) \<longrightarrow>
       (\<forall>u\<in>set (users world0). phone u \<noteq> normalizedPhone (toStr (phone_in (body r))))"
    "truthy (password_in (body r))"
    using createReq_valid(4-6) by (simp_all add: b)
  have c: "createAgent env0 r world0 =
           tryCatch (createAgentStore env0 (body r))
             (\<lambda>error. respond 500 (serverError (orStr (message error) ''Server error'')))
             world0"
    using createReq_valid(1) v by (rule createAgent_validated)
  have e: "sent world0 = []"
    by (simp add: world0_def)
  from createAgentStore_ok[OF createReq_valid(2,3), of "body r" world0]
  obtain w' where w': "createAgentStore env0 (body r) world0 = (Inr (), w')"
    "map statusCode (sent w') = [201]"
    unfolding e by auto
  show s1: "map statusCode (sent (snd (createAgent env0 r world0))) = [201]"
    by (simp add: c tryCatch_def w')
  from create_then_get[OF createReq_valid(1-3) v createReq_valid(7) createReq_valid(1)
      createReq_valid(8)]
  obtain a cs where g: "getAgent env0 newAgentReq (snd (createAgent env0 r world0)) =
           (Inr (), (snd (createAgent env0 r world0))
              \<lparr>sent := sent (snd (createAgent env0 r world0)) @
                 [\<lparr>statusCode = 200,
                   payload = JObj [(''success'', JBool True),
                                   (''data'', agentView (a, cs))]\<rparr>]\<rparr>)"
    and na: "name a = trim (toStr (firstName (body r)) @ '' '' @ toStr (lastName (body r)))"
    by blast
  have nm: "name a = trim (''Dana'' @ '' '' @ x)"
    by (simp add: na n toStr_def)
  show "map statusCode (sent (snd (getAgent env0 newAgentReq
                                    (snd (createAgent env0 r world0))))) = [201, 200]"
    by (simp add: g s1)
  show "field ''firstName'' (field ''data'' (payload (last (sent (snd
           (getAgent env0 newAgentReq (snd (createAgent env0 r world0))))))))
         = JStr (firstNameOf (trim (''Dana'' @ '' '' @ x)))"
    by (simp add: g agentView_names nm)
  show "field ''lastName'' (field ''data'' (payload (last (sent (snd
           (getAgent env0 newAgentReq (snd (createAgent env0 r world0))))))))
         = JStr (lastNameOf (trim (''Dana'' @ '' '' @ x)))"
    by (simp add: g agentView_names nm)
qed

text \<open>
  C9 as the specification states it fails: the first name \<^verbatim>\<open>Dana\<close> is non-empty and
  has no space, but with the last name \<^verbatim>\<open>Reed\<close> followed by a space the stored name is
  trimmed, and the agent created (201) is fetched with the last name \<^verbatim>\<open>Reed\<close>, which is
  not the one sent. The same holds with the last name \<^verbatim>\<open>Reed\<close> followed by the
  no-break space U+00A0.
\<close>

theorem name_round_trip_counterexample:
  "firstName (body trailingReq) = Some ''Dana'' \<and> lastName (body trailingReq) = Some ''Reed ''
   \<and> ''Dana'' \<noteq> [] \<and> CHR '' '' \<notin> set ''Dana''
   \<and> map statusCode (sent (snd (createAgent env0 trailingReq world0))) = [201]
   \<and> map statusCode (sent (snd (getAgent env0 newAgentReq
                                    (snd (createAgent env0 trailingReq world0))))) = [201, 200]
   \<and> field ''firstName'' (field ''data'' (payload (last (sent (snd
         (getAgent env0 newAgentReq (snd (createAgent env0 trailingReq world0)))))))) = JStr ''Dana''
   \<and> field ''lastName'' (field ''data'' (payload (last (sent (snd
         (getAgent env0 newAgentReq (snd (createAgent env0 trailingReq world0)))))))) = JStr ''Reed''
   \<and> ''Reed'' \<noteq> ''Reed ''
   \<and> firstName (body nbspReq) = Some ''Dana''
   \<and> lastName (body nbspReq) = Some (''Reed'' @ [CHR 0xC2, CHR 0xA0])
   \<and> map statusCode (sent (snd (getAgent env0 newAgentReq
                                    (snd (createAgent env0 nbspReq world0))))) = [201, 200]
   \<and> field ''lastName'' (field ''data'' (payload (last (sent (snd
         (getAgent env0 newAgentReq (snd (createAgent env0 nbspReq world0)))))))) = JStr ''Reed''
   \<and> ''Reed'' \<noteq> ''Reed'' @ [CHR 0xC2, CHR 0xA0]"
proof -
  have b: "body trailingReq = (body createReq)\<lparr>lastName := Some ''Reed ''\<rparr>"
    "body nbspReq = (body createReq)\<lparr>lastName := Some (''Reed'' @ [CHR 0xC2, CHR 0xA0])\<rparr>"
    by (simp_all add: trailingReq_def nbspReq_def)
  have n: "firstName (body trailingReq) = Some ''Dana''"
    "lastName (body trailingReq) = Some ''Reed ''"
    "firstName (body nbspReq) = Some ''Dana''"
    "lastName (body nbspReq) = Some (''Reed'' @ [CHR 0xC2, CHR 0xA0])"
    by (simp_all add: trailingReq_def nbspReq_def createReq_def)
  have fl: "firstNameOf ''Dana Reed'' = ''Dana''" "lastNameOf ''Dana Reed'' = ''Reed''"
    by (simp_all add: firstNameOf_eq lastNameOf_eq)
  note t = created_and_fetched[OF b(1), unfolded trim_examples fl]
  note u = created_and_fetched[OF b(2), unfolded trim_examples fl]
  show ?thesis
    by (intro conjI n t u(2,4)) simp_all
qed

end
